theory Spec2Isabelle
  imports Complex_Main "HOL-Library.Multiset"
begin


section \<open>Python exceptions\<close>

text \<open>
  Every \<open>raise\<close>, failed \<open>assert\<close>, unbound name, missing attribute and \<open>exit\<close> of the
  sources is a value of this type; a function that can fail returns \<open>py_error + 'a\<close>.
  \<open>NaNOrInf\<close> is not an exception: it marks the places where numpy and pandas store a NaN
  or an infinity in a column and go on (a division by zero in an array, the minimum of
  an empty column). Numbers are modelled as exact reals, which have neither, so the model
  stops there.
\<close>

datatype py_error =
    AssertionError
  | AttributeError string
  | IndexError
  | KeyError string
  | NameError string
  | SystemExit int
  | TypeError
  | ValueError
  | ZeroDivisionError
  | NaNOrInf


section \<open>Fantasy point scorer (get\_fantasy\_points.py)\<close>

text \<open>
  A ruleset is a bundle of per-event point coefficients. The stat record handed to
  \<open>get_points\<close> is a dictionary (or a table row) from stat names to numbers; numbers are
  modelled as exact reals, and Python's \<open>//\<close> on a non-negative divisor as the floor of
  the quotient.
\<close>

record ruleset =
  ppPY :: real
  ppPY25 :: real
  ppPC :: real
  ppINC :: real
  ppPTD :: real
  ppINT :: real
  pp2PC :: real
  ppRY :: real
  ppRY10 :: real
  ppRTD :: real
  pp2PR :: real
  ppREY :: real
  ppREY10 :: real
  ppREC :: real
  ppRETD :: real
  pp2PRE :: real
  ppFUML :: real
  ppPAT :: real
  ppFGM :: real
  ppFG0 :: real

type_synonym stats = "string \<rightharpoonup> real"

text \<open>\<open>x // d\<close>: floor division, the result again a number of the same kind.\<close>

definition floordiv :: "real \<Rightarrow> real \<Rightarrow> real" where
  "floordiv x d = of_int \<lfloor>x / d\<rfloor>"

text \<open>\<open>gf = lambda key: df.get(key, 0)\<close>\<close>

definition gf :: "stats \<Rightarrow> string \<Rightarrow> real" where
  "gf df key = (case df key of None \<Rightarrow> 0 | Some v \<Rightarrow> v)"

definition get_points :: "ruleset \<Rightarrow> stats \<Rightarrow> real" where
  "get_points rs df =
     ppPY rs * gf df ''pass_yds''
   + ppPY25 rs * (floordiv (gf df ''pass_yds'') 25)
   + ppPC rs * gf df ''pass_cmp''
   + ppINC rs * (gf df ''pass_att'' - gf df ''pass_cmp'')
   + ppPTD rs * gf df ''pass_td''
   + ppINT rs * gf df ''pass_int''
   + pp2PC rs * gf df ''pass_twoptm''
   + ppRY rs * gf df ''rush_yds''
   + ppRY10 rs * (floordiv (gf df ''rush_yds'') 10)
   + ppRTD rs * gf df ''rush_td''
   + pp2PR rs * gf df ''rush_twoptm''
   + ppREY rs * gf df ''rec_yds''
   + ppREY10 rs * (floordiv (gf df ''rec_yds'') 10)
   + ppREC rs * gf df ''rec''
   + ppRETD rs * gf df ''rec_td''
   + pp2PRE rs * gf df ''rec_twoptm''
   + ppFUML rs * gf df ''fumbles_lost''
   + ppPAT rs * gf df ''xpm''
   + ppFGM rs * (gf df ''fga'' - gf df ''fgm'')
   + ppFG0 rs * gf df ''fgm''"

text \<open>
  The weighted sum as the specification writes it (section 4.2), over a total assignment
  \<open>s\<close> of the seventeen stat keys.
\<close>

definition computeFantasyPoints_spec :: "ruleset \<Rightarrow> (string \<Rightarrow> real) \<Rightarrow> real" where
  "computeFantasyPoints_spec rs s =
     ppPY rs * s ''pass_yds'' + ppPY25 rs * of_int \<lfloor>s ''pass_yds'' / 25\<rfloor>
   + ppPC rs * s ''pass_cmp'' + ppINC rs * (s ''pass_att'' - s ''pass_cmp'')
   + ppPTD rs * s ''pass_td'' + ppINT rs * s ''pass_int'' + pp2PC rs * s ''pass_twoptm''
   + ppRY rs * s ''rush_yds'' + ppRY10 rs * of_int \<lfloor>s ''rush_yds'' / 10\<rfloor>
   + ppRTD rs * s ''rush_td'' + pp2PR rs * s ''rush_twoptm''
   + ppREY rs * s ''rec_yds'' + ppREY10 rs * of_int \<lfloor>s ''rec_yds'' / 10\<rfloor>
   + ppREC rs * s ''rec'' + ppRETD rs * s ''rec_td'' + pp2PRE rs * s ''rec_twoptm''
   + ppFUML rs * s ''fumbles_lost'' + ppPAT rs * s ''xpm''
   + ppFGM rs * (s ''fga'' - s ''fgm'') + ppFG0 rs * s ''fgm''"

text \<open>The stat value the specification assigns to a key: the entry, or zero when missing.\<close>

definition stat_or_zero :: "stats \<Rightarrow> string \<Rightarrow> real" where
  "stat_or_zero df k = (if k \<in> dom df then the (df k) else 0)"

definition example_rules :: ruleset where
  "example_rules = \<lparr> ppPY = 1/25, ppPY25 = 1, ppPC = 1/2, ppINC = -1/2, ppPTD = 4, ppINT = -2,
     pp2PC = 2, ppRY = 1/10, ppRY10 = 1, ppRTD = 6, pp2PR = 2, ppREY = 1/10, ppREY10 = 1,
     ppREC = 1, ppRETD = 6, pp2PRE = 2, ppFUML = -2, ppPAT = 1, ppFGM = -1, ppFG0 = 3 \<rparr>"

definition example_stats :: stats where
  "example_stats = [''pass_yds'' \<mapsto> 0, ''rush_td'' \<mapsto> 0]"


section \<open>Bayesian posterior-predictive models (bayes\_models.py)\<close>

subsection \<open>The module \<open>dist_fit\<close> as \<open>bayes_models\<close> sees it\<close>

text \<open>
  \<open>bayes_models.py\<close> imports \<open>dist_fit\<close> and reads attributes of the module object. A
  module is modelled by the names it binds; what is bound to a name is either a function
  that can be called as \<open>f(k, n, alpha, beta)\<close> or some other object. Reading a name the
  module does not bind raises \<open>AttributeError\<close>; calling another object with these four
  arguments raises \<open>TypeError\<close>.
\<close>

datatype attribute = Callable4 "real \<Rightarrow> nat \<Rightarrow> real \<Rightarrow> real \<Rightarrow> real" | OtherObject

type_synonym module = "string \<rightharpoonup> attribute"

definition getattr :: "module \<Rightarrow> string \<Rightarrow> py_error + attribute" where
  "getattr m nm = (case m nm of None \<Rightarrow> Inl (AttributeError nm) | Some v \<Rightarrow> Inr v)"

definition call4 :: "attribute \<Rightarrow> py_error + (real \<Rightarrow> nat \<Rightarrow> real \<Rightarrow> real \<Rightarrow> real)" where
  "call4 v = (case v of Callable4 f \<Rightarrow> Inr f | OtherObject \<Rightarrow> Inl TypeError)"

text \<open>
  The names \<open>dist_fit.py\<close> binds at module level: its imports and its function
  definitions, in the order of the file. None of its functions takes the arguments
  \<open>(k, n, alpha, beta)\<close>, and neither \<open>beta_binomial\<close> nor \<open>log_beta_binomial\<close> is among the
  names.
\<close>

definition dist_fit_names :: "string list" where
  "dist_fit_names =
     [''np'', ''sqrt'', ''log'', ''exp'', ''pi'', ''gammaln'', ''betaln'', ''comb'', ''digamma'',
      ''factorial'', ''opt'', ''plt'',
      ''poisson'', ''log_poisson'', ''geometric'', ''neg_binomial'', ''log_neg_binomial'',
      ''gaussian_int'', ''exp_poly_ratio'', ''sum_log_neg_binomial'',
      ''grad_sum_log_neg_binomial'', ''sum_log_gaussian_int'', ''grad_sum_log_gaussian_int'',
      ''sum_log_exp_poly_ratio'', ''_grad_sum_log_exp_poly_noratio'',
      ''grad_sum_log_exp_poly_ratio'', ''to_poisson'', ''to_geometric'', ''to_neg_binomial'',
      ''to_gaussian_int'', ''to_exp_poly_ratio'', ''plot_counts'', ''plot_counts_poly'']"

definition dist_fit :: module where
  "dist_fit = map_of (map (\<lambda>nm. (nm, OtherObject)) dist_fit_names)"

subsection \<open>Beta-Binomial compound model\<close>

text \<open>
  The three scoring methods of \<open>beta_binomial_model_gen\<close>; \<open>m\<close> is the module object that
  the global name \<open>dist_fit\<close> refers to. When the module binds them, \<open>bb k n alpha beta\<close> is the
  probability mass at the support point \<open>k\<close> (the source applies it to the whole support
  array at once, elementwise) and \<open>lbb d n alpha beta\<close> its logarithm at the observation.
  Numbers are exact reals; \<open>n\<close> is the number of trials.
\<close>

text \<open>\<open>np.arange(0, n+1)\<close>\<close>

definition support :: "nat \<Rightarrow> real list" where
  "support n = map real [0..<n+1]"

text \<open>\<open>assert((data >= 0).all() and (data <= n).all())\<close>\<close>

definition data_in_range :: "nat \<Rightarrow> real list \<Rightarrow> bool" where
  "data_in_range n data = (list_all (\<lambda>d. 0 \<le> d) data \<and> list_all (\<lambda>d. d \<le> real n) data)"

text \<open>
  The \<open>for d in data\<close> loop of \<open>_mse\<close>: each round reads \<open>dist_fit.beta_binomial\<close> and calls
  it; the score is appended from the current \<open>alpha\<close>, \<open>beta\<close>; then both are updated.
\<close>

fun mse_loop ::
  "module \<Rightarrow> nat \<Rightarrow> real \<Rightarrow> real \<Rightarrow> real \<Rightarrow> real list \<Rightarrow> real list \<Rightarrow> py_error + real list" where
  "mse_loop m n lr alpha beta mses [] = Inr mses"
| "mse_loop m n lr alpha beta mses (d # ds) =
     (case getattr m ''beta_binomial'' of
        Inl e \<Rightarrow> Inl e
      | Inr v \<Rightarrow>
          (case call4 v of
             Inl e \<Rightarrow> Inl e
           | Inr bb \<Rightarrow>
               mse_loop m n lr (alpha + lr * d) (beta + lr * (real n - d))
                 (mses @ [sum_list (map (\<lambda>k. bb k n alpha beta * (k - d)\<^sup>2) (support n))]) ds))"

definition bbinom_mse ::
  "module \<Rightarrow> real list \<Rightarrow> nat \<Rightarrow> real \<Rightarrow> real \<Rightarrow> real \<Rightarrow> py_error + real list" where
  "bbinom_mse m data n alpha0 beta0 lr =
     (if data_in_range n data then mse_loop m n lr alpha0 beta0 [] data
      else Inl AssertionError)"

fun mae_loop ::
  "module \<Rightarrow> nat \<Rightarrow> real \<Rightarrow> real \<Rightarrow> real \<Rightarrow> real list \<Rightarrow> real list \<Rightarrow> py_error + real list" where
  "mae_loop m n lr alpha beta maes [] = Inr maes"
| "mae_loop m n lr alpha beta maes (d # ds) =
     (case getattr m ''beta_binomial'' of
        Inl e \<Rightarrow> Inl e
      | Inr v \<Rightarrow>
          (case call4 v of
             Inl e \<Rightarrow> Inl e
           | Inr bb \<Rightarrow>
               mae_loop m n lr (alpha + lr * d) (beta + lr * (real n - d))
                 (maes @ [sum_list (map (\<lambda>k. bb k n alpha beta * \<bar>k - d\<bar>) (support n))]) ds))"

definition bbinom_mae ::
  "module \<Rightarrow> real list \<Rightarrow> nat \<Rightarrow> real \<Rightarrow> real \<Rightarrow> real \<Rightarrow> py_error + real list" where
  "bbinom_mae m data n alpha0 beta0 lr =
     (if data_in_range n data then mae_loop m n lr alpha0 beta0 [] data
      else Inl AssertionError)"

text \<open>The loop of \<open>_kld\<close> reads \<open>dist_fit.log_beta_binomial\<close> and calls it at the observation.\<close>

fun kld_loop ::
  "module \<Rightarrow> nat \<Rightarrow> real \<Rightarrow> real \<Rightarrow> real \<Rightarrow> real list \<Rightarrow> real list \<Rightarrow> py_error + real list" where
  "kld_loop m n lr alpha beta mses [] = Inr mses"
| "kld_loop m n lr alpha beta mses (d # ds) =
     (case getattr m ''log_beta_binomial'' of
        Inl e \<Rightarrow> Inl e
      | Inr v \<Rightarrow>
          (case call4 v of
             Inl e \<Rightarrow> Inl e
           | Inr lbb \<Rightarrow>
               kld_loop m n lr (alpha + lr * d) (beta + lr * (real n - d))
                 (mses @ [- lbb d n alpha beta]) ds))"

definition bbinom_kld ::
  "module \<Rightarrow> real list \<Rightarrow> nat \<Rightarrow> real \<Rightarrow> real \<Rightarrow> real \<Rightarrow> py_error + real list" where
  "bbinom_kld m data n alpha0 beta0 lr =
     (if data_in_range n data then kld_loop m n lr alpha0 beta0 [] data
      else Inl AssertionError)"

text \<open>
  The hyperparameters the specification attaches to a step: the prior \<open>(alpha0, beta0)\<close>
  updated by \<open>alpha \<leftarrow> alpha + lr * d\<close>, \<open>beta \<leftarrow> beta + lr * (n - d)\<close> for each of the
  observations \<open>ds\<close> seen so far, in order.
\<close>

definition posterior :: "nat \<Rightarrow> real \<Rightarrow> real \<times> real \<Rightarrow> real list \<Rightarrow> real \<times> real" where
  "posterior n lr ab ds = foldl (\<lambda>(a, b) d. (a + lr * d, b + lr * (real n - d))) ab ds"

text \<open>The three per-step scores, as functions of the observation and the hyperparameters.\<close>

definition mse_score :: "(real \<Rightarrow> nat \<Rightarrow> real \<Rightarrow> real \<Rightarrow> real) \<Rightarrow> nat \<Rightarrow> real \<Rightarrow> real \<times> real \<Rightarrow> real" where
  "mse_score bb n d ab = sum_list (map (\<lambda>k. bb k n (fst ab) (snd ab) * (k - d)\<^sup>2) (support n))"

definition mae_score :: "(real \<Rightarrow> nat \<Rightarrow> real \<Rightarrow> real \<Rightarrow> real) \<Rightarrow> nat \<Rightarrow> real \<Rightarrow> real \<times> real \<Rightarrow> real" where
  "mae_score bb n d ab = sum_list (map (\<lambda>k. bb k n (fst ab) (snd ab) * \<bar>k - d\<bar>) (support n))"

definition kld_score :: "(real \<Rightarrow> nat \<Rightarrow> real \<Rightarrow> real \<Rightarrow> real) \<Rightarrow> nat \<Rightarrow> real \<Rightarrow> real \<times> real \<Rightarrow> real" where
  "kld_score lbb n d ab = - lbb d n (fst ab) (snd ab)"

text \<open>
  A module that binds the two functions the model reads, both to a function from whose
  value \<open>alpha\<close> and \<open>beta\<close> can be read off: what the loops would return if \<open>dist_fit\<close> had
  them.
\<close>

definition probe :: "real \<Rightarrow> nat \<Rightarrow> real \<Rightarrow> real \<Rightarrow> real" where
  "probe k n alpha beta = 100 * alpha + beta"

definition dist_fit_with_probe :: module where
  "dist_fit_with_probe =
     dist_fit(''beta_binomial'' \<mapsto> Callable4 probe, ''log_beta_binomial'' \<mapsto> Callable4 probe)"

subsection \<open>Negative-Binomial compound model\<close>

text \<open>
  The observations are a numpy array of one dimension, or of two: then \<open>data.T\<close> is
  iterated, each row a pair (numerator, denominator). More dimensions fail the
  assertion \<open>len(data.shape) <= 2\<close>.
\<close>

datatype ndarray = Flat "real list" | Paired "(real \<times> real) list" | HigherDim

text \<open>The two loops of \<open>_get_rps\<close>; \<open>rs[-1]\<close> is the last element (both lists start non-empty).\<close>

fun rps_loop_paired :: "real \<Rightarrow> real list \<Rightarrow> real list \<Rightarrow> (real \<times> real) list \<Rightarrow> real list \<times> real list" where
  "rps_loop_paired lr rs bs [] = (rs, bs)"
| "rps_loop_paired lr rs bs ((dn, dd) # rest) =
     rps_loop_paired lr (rs @ [last rs + lr * dn]) (bs @ [last bs + lr * dd]) rest"

fun rps_loop_flat :: "real \<Rightarrow> real list \<Rightarrow> real list \<Rightarrow> real list \<Rightarrow> real list \<times> real list" where
  "rps_loop_flat lr rs bs [] = (rs, bs)"
| "rps_loop_flat lr rs bs (d # rest) =
     rps_loop_flat lr (rs @ [last rs + lr * d]) (bs @ [last bs + lr * d]) rest"

text \<open>
  \<open>_get_rps(data, r0, p0, lr)\<close>. \<open>(1-p0)/p0\<close> divides Python numbers and raises for
  \<open>p0 = 0\<close>; the final \<open>1.0/(1.0+np.array(bs))\<close> is an array division (where a
  denominator is zero numpy yields an infinity, HOL's division yields 0).
\<close>

definition get_rps :: "ndarray \<Rightarrow> real \<Rightarrow> real \<Rightarrow> real \<Rightarrow> py_error + (real list \<times> real list)" where
  "get_rps data r0 p0 lr =
     (if p0 = 0 then Inl ZeroDivisionError
      else
        let r = r0; b = (1 - p0) / p0 in
        (case data of
           HigherDim \<Rightarrow> Inl AssertionError
         | Paired cols \<Rightarrow>
             (case rps_loop_paired lr [r] [b] cols of
                (rs, bs) \<Rightarrow> Inr (rs, map (\<lambda>b. 1 / (1 + b)) bs))
         | Flat ds \<Rightarrow>
             (case rps_loop_flat lr [r] [b] ds of
                (rs, bs) \<Rightarrow> Inr (rs, map (\<lambda>b. 1 / (1 + b)) bs))))"


section \<open>Maximum-likelihood fits (dist\_fit.py)\<close>

text \<open>
  Name resolution inside \<open>to_poisson\<close>. The only array-valued name bound in the function
  is its parameter \<open>data\<close>; the other locals (\<open>n\<close>, \<open>mu\<close>, \<open>err_mu\<close>) are scalars, and the
  module binds, besides its functions, only the imports \<open>np\<close>, \<open>sqrt\<close>, \<open>log\<close>, \<open>exp\<close>,
  \<open>pi\<close>, \<open>gammaln\<close>, \<open>betaln\<close>, \<open>comb\<close>, \<open>digamma\<close>, \<open>factorial\<close>, \<open>opt\<close>, \<open>plt\<close>. Loading a
  name that no scope binds raises \<open>NameError\<close>.
\<close>

type_synonym scope = "(string \<times> real list) list"

definition load_name :: "scope \<Rightarrow> string \<Rightarrow> py_error + real list" where
  "load_name sc nm = (case map_of sc nm of Some v \<Rightarrow> Inr v | None \<Rightarrow> Inl (NameError nm))"

definition to_poisson_scope :: "real list \<Rightarrow> scope" where
  "to_poisson_scope data = [(''data'', data)]"

text \<open>
  \<open>to_poisson(data)\<close>; \<open>gammaln\<close> is scipy's log-gamma function, a parameter. The last
  statement reads \<open>sum( gammaln( np.array(x)+1 ) )\<close>: the array is built from the name
  \<open>x\<close>, after the first term of the statistic has been computed.
\<close>

definition to_poisson :: "(real \<Rightarrow> real) \<Rightarrow> real list \<Rightarrow> py_error + ((real \<times> real) \<times> real)" where
  "to_poisson gammaln data =
     (if data = [] then Inl (SystemExit 1)
      else
        let n = real (length data);
            mu = sum_list data / n;
            err_mu = sqrt (mu / n);
            term1 = mu * (ln mu - 1) * n / (n - 1)
        in
        (case load_name (to_poisson_scope data) ''x'' of
           Inl e \<Rightarrow> Inl e
         | Inr x \<Rightarrow>
             Inr ((mu, err_mu), term1 - sum_list (map (\<lambda>v. gammaln (v + 1)) x) / (n - 1))))"


section \<open>Rushing models: default hyperparameters (playermodels/rushing.py)\<close>

text \<open>
  Position codes are ASCII: \<open>str.upper\<close> changes the letters a-z and leaves every other
  character.
\<close>

definition is_lower :: "char \<Rightarrow> bool" where
  "is_lower c = (97 \<le> (of_char c :: nat) \<and> (of_char c :: nat) \<le> 122)"

definition upper :: "string \<Rightarrow> string" where
  "upper s = map (\<lambda>c. if is_lower c then char_of ((of_char c :: nat) - 32) else c) s"

text \<open>
  A call's outcome: the records it sent to \<open>logging.error\<close>, in order, and either the
  exception it raised (\<open>Inl\<close>) or the value it returned (\<open>Inr\<close>), where \<open>None\<close> is
  Python's \<open>None\<close>, returned when the body ends without a \<open>return\<close>.
\<close>

datatype log_record = LogError string

type_synonym hyperpars_outcome = "log_record list \<times> (py_error + real list option)"

definition RushAttModel_default_hyperpars :: "string \<Rightarrow> hyperpars_outcome" where
  "RushAttModel_default_hyperpars pos0 =
     (let pos = upper pos0 in
      if pos = ''RB'' then ([], Inr (Some [0.756, 0.0756, 0.133, 0.503, 0.752]))
      else if pos = ''QB'' then ([], Inr (Some [1.76, 0.58, 0.238, 0.494, 0.963]))
      else if pos = ''WR'' then ([], Inr (Some [1.17, 7.03, 1.0, 0.545, 0.982]))
      else
        ((if pos = ''TE'' then [LogError ''TEs do not rush enough to try to predict them''] else [])
           @ [LogError (''positional defaults not implemented for '' @ pos)],
         Inr None))"

definition RushYdsModel_default_hyperpars :: "string \<Rightarrow> hyperpars_outcome" where
  "RushYdsModel_default_hyperpars pos0 =
     (let pos = upper pos0 in
      if pos = ''RB'' then
        ([], Inr (Some [0.657, 0.2, 1.68, 10.88, 1.988, 0.381, 0.00154, 1.0, 1.0, 1.0, 1.0]))
      else if pos = ''QB'' then
        ([], Inr (Some [111.59, 42.13, 2.82, 50.32, 0.0472, 0.940, 0.000042, 0.805, 0.985, 0.972, 0.942]))
      else if pos = ''WR'' then
        ([], Inr (Some [116.2, 41.84, 2.45, 46.42, 0.348, 0.332, 0.00092, 1.0, 1.0, 1.0, 1.0]))
      else
        ((if upper pos = ''TE''
          then [LogError ''TEs do not run enough to try to predict their rushes''] else [])
           @ [LogError (''no default hyperparameters are implemented for '' @ pos)],
         Inr None))"

definition RushTdModel_default_hyperpars :: "string \<Rightarrow> hyperpars_outcome" where
  "RushTdModel_default_hyperpars pos0 =
     (let pos = upper pos0 in
      if pos = ''RB'' then ([], Inr (Some [20.90, 684.65, 1.0, 0.569, 1.0]))
      else if pos = ''QB'' then ([], Inr (Some [12.95, 330.25, 1.0, 1.0, 0.991]))
      else if pos = ''WR'' then ([], Inr (Some [1.14, 60.63, 0.413, 0.997, 0.989]))
      else
        ((if pos = ''TE'' then [LogError ''TEs do not rush enough''] else [])
           @ [LogError (''rushing TD positional defaults not implemented for '' @ pos)],
         Inr None))"

text \<open>Whether a call ended with an exception.\<close>

definition raised :: "hyperpars_outcome \<Rightarrow> bool" where
  "raised out = (case snd out of Inl e \<Rightarrow> True | Inr v \<Rightarrow> False)"


section \<open>Name normalisation (draft\_app.py)\<close>

text \<open>
  Names are Python 3 strings. The model has the code points 0 to 255 (Latin-1), one
  \<open>char\<close> each; code points beyond 255 are outside the model.

  \<open>str.strip()\<close> removes leading and trailing whitespace. In this range the whitespace
  characters are the space, the control characters tab, line feed, vertical tab, form
  feed, carriage return, the four separators 0x1c-0x1f, the next-line control 0x85 and
  the no-break space 0xa0.
\<close>

definition isspace :: "char \<Rightarrow> bool" where
  "isspace c =
     (let n = (of_char c :: nat) in
      n = 32 \<or> (9 \<le> n \<and> n \<le> 13) \<or> (28 \<le> n \<and> n \<le> 31) \<or> n = 133 \<or> n = 160)"

definition strip :: "string \<Rightarrow> string" where
  "strip s = rev (dropWhile isspace (rev (dropWhile isspace s)))"

text \<open>
  The upper-case letters of the range: A-Z, and 0xc0-0xde without the multiplication
  sign 0xd7. \<open>str.lower()\<close> moves each of them 32 code points up and leaves every other
  character of the range.
\<close>

definition isupper :: "char \<Rightarrow> bool" where
  "isupper c =
     (let n = (of_char c :: nat) in
      (65 \<le> n \<and> n \<le> 90) \<or> (192 \<le> n \<and> n \<le> 222 \<and> n \<noteq> 215))"

definition lower_char :: "char \<Rightarrow> char" where
  "lower_char c = (if isupper c then char_of ((of_char c :: nat) + 32) else c)"

definition lower :: "string \<Rightarrow> string" where
  "lower s = map lower_char s"

text \<open>\<open>s.replace(old, new)\<close> for a one-character \<open>old\<close>.\<close>

definition replace_char :: "char \<Rightarrow> string \<Rightarrow> string \<Rightarrow> string" where
  "replace_char old new s = concat (map (\<lambda>c. if c = old then new else [c]) s)"

text \<open>
  \<open>name.strip().lower().replace(' ', '_').replace('\'', '').replace('.', '')\<close>\<close>

definition simplify_name :: "string \<Rightarrow> string" where
  "simplify_name name =
     replace_char (CHR ''.'') ''''
       (replace_char (CHR 0x27) ''''
          (replace_char (CHR '' '') ''_'' (lower (strip name))))"

text \<open>
  Whitespace other than the space itself: tabs, line breaks, the separators, the
  next-line control and the no-break space.
\<close>

definition other_whitespace :: "char \<Rightarrow> bool" where
  "other_whitespace c = (isspace c \<and> c \<noteq> CHR '' '')"

section \<open>Draft application: player tables (draft\_app.py)\<close>

text \<open>
  A row of the available or picked table. \<open>idx\<close> is the row's index label, \<open>games\<close> the
  column \<open>g\<close>. A cell that pandas shows as NaN or that belongs to a column the table does
  not have is \<open>None\<close>: \<open>adp\<close> and \<open>ecp\<close> of an unranked player, \<open>tier\<close> before a label is
  assigned, \<open>vorp\<close> before the first update, \<open>manager\<close> and \<open>pick\<close> outside the picked
  table. A table is the list of its rows, in order; index labels are meant to be unique.
\<close>

record player =
  idx :: int
  player_name :: string
  team :: string
  pos :: string
  adp :: "real option"
  ecp :: "real option"
  exp_proj :: real
  games :: int
  vols :: real
  tier :: "string option"
  vbsd :: real
  volb :: real
  rank :: string
  auction :: real
  vorp :: "real option"
  manager :: "int option"
  pick :: "int option"

type_synonym table = "player list"

text \<open>\<open>index in df.index\<close>\<close>

definition index_in :: "int \<Rightarrow> table \<Rightarrow> bool" where
  "index_in i df = (i \<in> set (map idx df))"

text \<open>\<open>df.loc[index]\<close> for a label that is present: the row carrying it.\<close>

definition loc :: "table \<Rightarrow> int \<Rightarrow> player option" where
  "loc df i = find (\<lambda>r. idx r = i) df"

text \<open>\<open>df.drop(index, inplace=True)\<close>\<close>

definition drop_index :: "int \<Rightarrow> table \<Rightarrow> table" where
  "drop_index i df = filter (\<lambda>r. idx r \<noteq> i) df"

text \<open>
  \<open>df.loc[index] = row\<close>: a label already present has its row overwritten in place, a new
  label is appended as the last row.
\<close>

definition set_row :: "int \<Rightarrow> player \<Rightarrow> table \<Rightarrow> table" where
  "set_row i p df =
     (if index_in i df then map (\<lambda>r. if idx r = i then p\<lparr>idx := i\<rparr> else r) df
      else df @ [p\<lparr>idx := i\<rparr>])"

text \<open>
  \<open>df.sort_values(key, ascending=asc)\<close>: rows whose key is NaN come last. The order the
  library gives to rows with equal keys is not specified; the model keeps them in their
  original order.
\<close>

definition sort_values :: "(player \<Rightarrow> real option) \<Rightarrow> bool \<Rightarrow> table \<Rightarrow> table" where
  "sort_values key asc df =
     (let present = filter (\<lambda>r. key r \<noteq> None) df;
          missing = filter (\<lambda>r. key r = None) df
      in (if asc then sort_key (\<lambda>r. the (key r)) present
          else rev (sort_key (\<lambda>r. the (key r)) (rev present))) @ missing)"

text \<open>\<open>xs[i]\<close> on a Python list; \<open>xs[-1]\<close> is the last element, \<open>None\<close> stands for \<open>IndexError\<close>.\<close>

definition py_index :: "'a list \<Rightarrow> int \<Rightarrow> 'a option" where
  "py_index xs i =
     (if 0 \<le> i \<and> i < int (length xs) then Some (xs ! nat i)
      else if i < 0 \<and> - int (length xs) \<le> i then Some (xs ! nat (int (length xs) + i))
      else None)"

section \<open>Draft application: league configuration\<close>

text \<open>
  \<open>n_roster_per_team\<close> is the dictionary \<open>main\<close> builds from the command line, with
  exactly the eight keys below, in this order.
\<close>

record roster_sizes =
  n_QB :: int
  n_RB :: int
  n_WR :: int
  n_TE :: int
  n_FLEX :: int
  n_DST :: int
  n_K :: int
  n_BENCH :: int

definition roster_keys :: "string list" where
  "roster_keys = [''QB'', ''RB'', ''WR'', ''TE'', ''FLEX'', ''DST'', ''K'', ''BENCH'']"

definition n_roster_per_team :: "roster_sizes \<Rightarrow> string \<Rightarrow> int" where
  "n_roster_per_team rs k =
     (if k = ''QB'' then n_QB rs else if k = ''RB'' then n_RB rs
      else if k = ''WR'' then n_WR rs else if k = ''TE'' then n_TE rs
      else if k = ''FLEX'' then n_FLEX rs else if k = ''DST'' then n_DST rs
      else if k = ''K'' then n_K rs else if k = ''BENCH'' then n_BENCH rs else 0)"

definition flex_pos :: "string list" where
  "flex_pos = [''RB'', ''WR'', ''TE'']"

text \<open>
  The sort-key strategies (\<open>_known_strategies\<close>), the only ones \<open>do_pick\<close> and the automatic
  managers pass to \<open>_pick_rec\<close>. For them the \<open>strat == 'vona'\<close> branch of \<open>_pick_rec\<close> is
  not entered.
\<close>

datatype strategy = Vols | Vbsd | Volb | Vorp | Adp | Ecp

fun strat_key :: "strategy \<Rightarrow> player \<Rightarrow> real option" where
  "strat_key Vols r = Some (vols r)"
| "strat_key Vbsd r = Some (vbsd r)"
| "strat_key Volb r = Some (volb r)"
| "strat_key Vorp r = vorp r"
| "strat_key Adp r = adp r"
| "strat_key Ecp r = ecp r"


section \<open>Draft application: dynamic VORP\<close>

text \<open>\<open>ap.loc[ap.pos == pos, 'vorp'] = f\<close>, row by row.\<close>

definition set_vorp :: "string \<Rightarrow> (player \<Rightarrow> real) \<Rightarrow> table \<Rightarrow> table" where
  "set_vorp p f ap = map (\<lambda>r. if pos r = p then r\<lparr>vorp := Some (f r)\<rparr> else r) ap"

text \<open>
  One round of the \<open>for pos in positions\<close> loop of \<open>_update_vorp\<close>. The branch taken when the
  interpolated index runs past the baseline list evaluates \<open>len(pos_baseline-1)\<close>, which
  subtracts a number from a table with text columns and raises.
\<close>

definition update_vorp_pos :: "table \<Rightarrow> string \<Rightarrow> table \<Rightarrow> py_error + table" where
  "update_vorp_pos pp p ap =
     (let pos_picked = filter (\<lambda>r. pos r = p) pp;
          n_pos_picked = int (length pos_picked);
          n_waiv_picked = int (length (filter (\<lambda>r. tier r = Some ''FA'') pos_picked));
          posdf = filter (\<lambda>r. pos r = p) ap;
          pos_draftable = filter (\<lambda>r. tier r \<noteq> Some ''FA'') posdf;
          n_pos_draftable = int (length pos_draftable) - n_waiv_picked
      in
      if n_pos_draftable \<le> 0 then
        (if posdf = [] then Inr ap
         else Inr (set_vorp p (\<lambda>r. vols r - Max (set (map vols posdf))) ap))
      else
        let frac_through_bench = real_of_int n_pos_picked / real_of_int (n_pos_picked + n_pos_draftable);
            worst_starters = sort_values (\<lambda>r. Some (vols r)) True
                               (filter (\<lambda>r. tier r \<noteq> Some ''BU'') pos_draftable);
            ls_index = (case worst_starters of [] \<Rightarrow> None | w # ws \<Rightarrow> Some (idx w));
            pos_baseline = filter (\<lambda>r. tier r = Some ''BU'' \<or> Some (idx r) = ls_index) pos_draftable;
            n_pos_baseline = length pos_baseline
        in
        if n_pos_baseline = 0 then Inr (set_vorp p vols ap)
        else
          let index = nat \<lfloor>frac_through_bench * real n_pos_baseline\<rfloor> in
          if index \<ge> n_pos_baseline then Inl TypeError
          else
            Inr (set_vorp p (\<lambda>r. vols r - rev (sort (map vols pos_baseline)) ! index) ap))"

fun update_vorp_loop :: "table \<Rightarrow> string list \<Rightarrow> table \<Rightarrow> py_error + table" where
  "update_vorp_loop pp [] ap = Inr ap"
| "update_vorp_loop pp (p # ps) ap =
     (case update_vorp_pos pp p ap of
        Inl e \<Rightarrow> Inl e
      | Inr ap' \<Rightarrow> update_vorp_loop pp ps ap')"

text \<open>\<open>_update_vorp(ap, pp)\<close>: the positions are the roster keys other than FLEX and BENCH.\<close>

definition update_vorp :: "table \<Rightarrow> table \<Rightarrow> py_error + table" where
  "update_vorp ap pp =
     update_vorp_loop pp (filter (\<lambda>k. k \<notin> set [''FLEX'', ''BENCH'']) roster_keys) ap"


section \<open>Draft application: the recommendation engine\<close>

text \<open>
  \<open>_get_manager_roster(manager, pp)\<close>. The picked table has a \<open>manager\<close> column once a pick
  was recorded with a manager; the model reads "the column exists" as "some row carries
  a manager".
\<close>

definition get_manager_roster :: "int option \<Rightarrow> table \<Rightarrow> table" where
  "get_manager_roster man pp =
     (if length pp = 0 then pp
      else if list_ex (\<lambda>r. manager r \<noteq> None) pp
        then filter (\<lambda>r. man \<noteq> None \<and> manager r = man) pp
      else pp)"

text \<open>\<open>len(roster[roster.pos == pos])\<close>\<close>

definition count_pos :: "table \<Rightarrow> string \<Rightarrow> int" where
  "count_pos roster p = int (length (filter (\<lambda>r. pos r = p) roster))"

definition crap_positions :: "string list" where
  "crap_positions = [''K'', ''DST'']"

definition key_positions :: "string list" where
  "key_positions = [''QB'', ''RB'', ''WR'', ''TE'']"

text \<open>
  The positions \<open>_pick_rec\<close> considers for a roster, before the disabled ones are removed.
  \<open>starting_roster_spots\<close> sums over the keys with \<open>pos.upper() is not 'BENCH'\<close>, a
  comparison of object identity that holds for every key, BENCH included.
\<close>

definition acceptable_positions :: "roster_sizes \<Rightarrow> table \<Rightarrow> string list" where
  "acceptable_positions rs roster =
     (let n = n_roster_per_team rs;
          starting_roster_spots = sum_list (map n roster_keys);
          needed_crap_starter_positions = filter (\<lambda>p. count_pos roster p < n p) crap_positions;
          key_nonflex_positions = filter (\<lambda>p. p \<notin> set flex_pos) key_positions;
          used_flex_spot = list_ex (\<lambda>p. count_pos roster p > n p) flex_pos;
          flex_mult = (if used_flex_spot then 0 else 1);
          needed_key_starter_positions =
            filter (\<lambda>p. count_pos roster p < n p) key_nonflex_positions
            @ filter (\<lambda>p. count_pos roster p < n p + flex_mult * n ''FLEX'') flex_pos;
          current_roster_size = int (length roster)
      in
      if needed_key_starter_positions \<noteq> [] then needed_key_starter_positions
      else if current_roster_size + int (length needed_crap_starter_positions)
                \<ge> starting_roster_spots
        then needed_crap_starter_positions
      else
        let acceptable_crap = filter (\<lambda>p. count_pos roster p < n p) crap_positions;
            acceptable_backup =
              filter (\<lambda>p. count_pos roster p < n p + n ''BENCH'' div 2) key_positions
        in acceptable_backup @ acceptable_crap)"

text \<open>
  \<open>_pick_rec(manager, strat, ap, pp, disabled_pos)\<close> for a sort-key strategy. It returns
  the index label of the recommended player, and the available table, which the \<open>vorp\<close>
  strategy updates on the way. \<open>toppicks.index[0]\<close> raises \<open>IndexError\<close> when no available
  player has an acceptable position.
\<close>

definition pick_rec ::
  "roster_sizes \<Rightarrow> int option \<Rightarrow> strategy \<Rightarrow> table \<Rightarrow> table \<Rightarrow> string list
     \<Rightarrow> py_error + (int \<times> table)" where
  "pick_rec rs man strat ap pp disabled_pos =
     (let roster = get_manager_roster man pp;
          acceptable = acceptable_positions rs roster
      in
      case (if strat = Vorp then update_vorp ap pp else Inr ap) of
        Inl e \<Rightarrow> Inl e
      | Inr ap1 \<Rightarrow>
          let enabled = filter (\<lambda>p. p \<notin> set disabled_pos) acceptable;
              acceptable2 = (if length enabled \<le> 0 then key_positions else enabled);
              asc = (strat \<in> set [Adp, Ecp]);
              toppicks = sort_values (strat_key strat) asc
                           (filter (\<lambda>r. pos r \<in> set acceptable2) ap1)
          in (case toppicks of
                [] \<Rightarrow> Inl IndexError
              | best # rest \<Rightarrow> Inr (idx best, ap1)))"


section \<open>Draft application: picking and unpicking\<close>

text \<open>
  As \<open>main\<close> builds the two tables, the available table has no \<open>manager\<close> and \<open>pick\<close>
  columns and the picked table no \<open>vorp\<close> column (it is created from the columns of the
  available table before the first VORP update). \<open>df.loc[index] = row\<close> conforms the row
  to the columns of the receiving table.
\<close>

text \<open>
  \<open>pop_from_player_list(index, ap, pp, manager, pickno)\<close>, returning the two tables. The
  \<open>astype(int)\<close> conversions raise when the column holds a NaN.
\<close>

definition pop_from_player_list ::
  "int \<Rightarrow> table \<Rightarrow> table \<Rightarrow> int option \<Rightarrow> int option \<Rightarrow> py_error + (table \<times> table)" where
  "pop_from_player_list index ap pp man pickno =
     (case loc ap index of
        None \<Rightarrow> Inl IndexError
      | Some player \<Rightarrow>
          let pp1 = set_row index (player\<lparr>vorp := None\<rparr>) pp;
              pp2 = (case man of
                       None \<Rightarrow> pp1
                     | Some m \<Rightarrow> map (\<lambda>r. if idx r = index then r\<lparr>manager := Some m\<rparr> else r) pp1)
          in
          if man \<noteq> None \<and> list_ex (\<lambda>r. manager r = None) pp2 then Inl ValueError
          else
            let pp3 = (case pickno of
                         None \<Rightarrow> pp2
                       | Some k \<Rightarrow> map (\<lambda>r. if idx r = index then r\<lparr>pick := Some k\<rparr> else r) pp2)
            in
            if pickno \<noteq> None \<and> list_ex (\<lambda>r. pick r = None) pp3 then Inl ValueError
            else Inr (drop_index index ap, pp3))"

text \<open>\<open>push_to_player_list(index, ap, pp)\<close>\<close>

definition push_to_player_list :: "int \<Rightarrow> table \<Rightarrow> table \<Rightarrow> py_error + (table \<times> table)" where
  "push_to_player_list index ap pp =
     (case loc pp index of
        None \<Rightarrow> Inl IndexError
      | Some player \<Rightarrow>
          Inr (set_row index (player\<lparr>manager := None, pick := None\<rparr>) ap, drop_index index pp))"

text \<open>
  The shell's state (the attributes of \<open>self\<close>), as far as picking reads or writes it. The prompt string and the
  printed output are left out. \<open>manager_auto_strats\<close> is a dictionary, kept as an
  association list.
\<close>

record app_state =
  self_ap :: table
  self_pp :: table
  draft_mode :: bool
  i_manager_turn :: "int option"
  manager_picks :: "int list"
  manager_auto_strats :: "(int \<times> strategy) list"
  self_roster :: roster_sizes

text \<open>
  A command ends normally with a state, or with an exception that leaves the state as it
  was when the exception was raised.
\<close>

datatype 's outcome = Done 's | Raised py_error 's

text \<open>
  The snake order \<open>do_snake\<close> builds: round \<open>i\<close> runs up for even \<open>i\<close> and down for odd \<open>i\<close>.
\<close>

definition snake_round :: "nat \<Rightarrow> nat \<Rightarrow> int list" where
  "snake_round n_teams i =
     (if i mod 2 = 0 then map int [1..<n_teams + 1] else rev (map int [1..<n_teams + 1]))"

definition snake_picks :: "nat \<Rightarrow> nat \<Rightarrow> int list" where
  "snake_picks n_teams n_rounds = concat (map (snake_round n_teams) [0..<n_rounds])"

text \<open>\<open>_get_current_manager()\<close>\<close>

definition get_current_manager :: "app_state \<Rightarrow> py_error + int option" where
  "get_current_manager st =
     (case i_manager_turn st of
        None \<Rightarrow> Inr None
      | Some t \<Rightarrow>
          if manager_picks st = [] then Inr None
          else if t \<ge> int (length (manager_picks st)) then Inr None
          else (case py_index (manager_picks st) t of
                  None \<Rightarrow> Inl IndexError
                | Some m \<Rightarrow> Inr (Some m)))"

text \<open>
  \<open>_advance_snake()\<close>, with the draft sequence, the automatic strategies and the user's
  answer \<open>conf\<close> to the question asked when the draft is over. The arguments \<open>t\<close>, \<open>ap\<close>, \<open>pp\<close>
  are the turn index and the tables on entry; the result holds them on exit. An
  \<open>IndexError\<close> raised inside the \<open>try\<close> block is caught there.
\<close>

function advance_snake_from ::
  "roster_sizes \<Rightarrow> int list \<Rightarrow> (int \<times> strategy) list \<Rightarrow> string \<Rightarrow> int \<Rightarrow> table \<Rightarrow> table
     \<Rightarrow> (int \<times> table \<times> table) outcome" where
  "advance_snake_from rs picks autos conf t ap pp =
     (if t + 1 \<ge> int (length picks) then
        (if conf \<noteq> ''y'' then
           (if pp = [] then Raised IndexError (t + 1, ap, pp)
            else (case push_to_player_list (idx (last pp)) ap pp of
                    Inl e \<Rightarrow> Raised e (t + 1, ap, pp)
                  | Inr (ap1, pp1) \<Rightarrow> Done (t + 1 - 1, ap1, pp1)))
         else Done (t + 1, ap, pp))
      else
        (case py_index picks (t + 1) of
           None \<Rightarrow> Raised IndexError (t + 1, ap, pp)
         | Some man \<Rightarrow>
             (case map_of autos man of
                None \<Rightarrow> Done (t + 1, ap, pp)
              | Some strat \<Rightarrow>
                  (case update_vorp ap pp of
                     Inl e \<Rightarrow> (if e = IndexError then Done (t + 1, ap, pp)
                               else Raised e (t + 1, ap, pp))
                   | Inr ap1 \<Rightarrow>
                       (case pick_rec rs (Some man) strat ap1 pp [] of
                          Inl e \<Rightarrow> (if e = IndexError then Done (t + 1, ap1, pp)
                                    else Raised e (t + 1, ap1, pp))
                        | Inr (player_index, ap2) \<Rightarrow>
                            (case pop_from_player_list player_index ap2 pp (Some man)
                                    (Some (t + 1 + 1)) of
                               Inl e \<Rightarrow> (if e = IndexError then Done (t + 1, ap2, pp)
                                         else Raised e (t + 1, ap2, pp))
                             | Inr (ap3, pp3) \<Rightarrow>
                                 (case advance_snake_from rs picks autos conf (t + 1) ap3 pp3 of
                                    Done s \<Rightarrow> Done s
                                  | Raised e s \<Rightarrow>
                                      (if e = IndexError then Done s else Raised e s))))))))"
  by pat_completeness auto
termination
  by (relation "measure (\<lambda>(rs, picks, autos, conf, t, ap, pp). nat (int (length picks) - t))") auto

definition advance_snake :: "string \<Rightarrow> app_state \<Rightarrow> app_state outcome" where
  "advance_snake conf st =
     (case i_manager_turn st of
        None \<Rightarrow> Raised TypeError st
      | Some t \<Rightarrow>
          (case advance_snake_from (self_roster st) (manager_picks st) (manager_auto_strats st) conf t
                  (self_ap st) (self_pp st) of
             Done (t', ap', pp') \<Rightarrow> Done (st\<lparr>self_ap := ap', self_pp := pp', i_manager_turn := Some t'\<rparr>)
           | Raised e (t', ap', pp') \<Rightarrow>
               Raised e (st\<lparr>self_ap := ap', self_pp := pp', i_manager_turn := Some t'\<rparr>)))"

text \<open>\<open>_regress_snake()\<close>\<close>

definition regress_snake :: "app_state \<Rightarrow> app_state outcome" where
  "regress_snake st =
     (case i_manager_turn st of
        None \<Rightarrow> Raised TypeError st
      | Some t \<Rightarrow> Done (st\<lparr>i_manager_turn := Some (t - 1)\<rparr>))"

text \<open>
  \<open>do_pick(args)\<close> for an argument that is the decimal numeral of the integer \<open>index\<close>
  (the form \<open>pick I\<close>). \<open>IndexError\<close> is caught by the command; any other exception leaves
  the command loop.
\<close>

definition do_pick :: "int \<Rightarrow> string \<Rightarrow> app_state \<Rightarrow> app_state outcome" where
  "do_pick index conf st =
     (case get_current_manager st of
        Inl e \<Rightarrow> Raised e st
      | Inr man \<Rightarrow>
          if draft_mode st \<and> i_manager_turn st = None then Raised TypeError st
          else
            let pickno = (if draft_mode st then map_option (\<lambda>t. t + 1) (i_manager_turn st)
                          else None)
            in
            (case pop_from_player_list index (self_ap st) (self_pp st) man pickno of
               Inl e \<Rightarrow> (if e = IndexError then Done st else Raised e st)
             | Inr (ap1, pp1) \<Rightarrow>
                 (case update_vorp ap1 pp1 of
                    Inl e \<Rightarrow> (if e = IndexError then Done (st\<lparr>self_ap := ap1, self_pp := pp1\<rparr>)
                              else Raised e (st\<lparr>self_ap := ap1, self_pp := pp1\<rparr>))
                  | Inr ap2 \<Rightarrow>
                      if draft_mode st then
                        (case advance_snake conf (st\<lparr>self_ap := ap2, self_pp := pp1\<rparr>) of
                           Done s \<Rightarrow> Done s
                         | Raised e s \<Rightarrow> (if e = IndexError then Done s else Raised e s))
                      else Done (st\<lparr>self_ap := ap2, self_pp := pp1\<rparr>))))"

text \<open>\<open>do_unpick(args)\<close>\<close>

definition do_unpick :: "app_state \<Rightarrow> app_state outcome" where
  "do_unpick st =
     (if length (self_pp st) > 0 then
        let lasti = idx (last (self_pp st)) in
        (case push_to_player_list lasti (self_ap st) (self_pp st) of
           Inl e \<Rightarrow> (if e = IndexError then Done st else Raised e st)
         | Inr (ap1, pp1) \<Rightarrow>
             (case update_vorp ap1 pp1 of
                Inl e \<Rightarrow> (if e = IndexError then Done (st\<lparr>self_ap := ap1, self_pp := pp1\<rparr>)
                          else Raised e (st\<lparr>self_ap := ap1, self_pp := pp1\<rparr>))
              | Inr ap2 \<Rightarrow>
                  if draft_mode st then
                    (case regress_snake (st\<lparr>self_ap := ap2, self_pp := pp1\<rparr>) of
                       Done s \<Rightarrow> Done s
                     | Raised e s \<Rightarrow> (if e = IndexError then Done s else Raised e s))
                  else Done (st\<lparr>self_ap := ap2, self_pp := pp1\<rparr>)))
      else Done st)"

text \<open>The state a command ended in normally, if it did.\<close>

fun done_state :: "'s outcome \<Rightarrow> 's option" where
  "done_state (Done s) = Some s"
| "done_state (Raised e s) = None"

text \<open>Picking and then immediately unpicking.\<close>

definition pick_then_unpick :: "int \<Rightarrow> string \<Rightarrow> app_state \<Rightarrow> app_state outcome" where
  "pick_then_unpick index conf st =
     (case do_pick index conf st of
        Done s \<Rightarrow> do_unpick s
      | Raised e s \<Rightarrow> Raised e s)"

subsection \<open>Example tables\<close>

definition blank_player :: player where
  "blank_player = \<lparr> idx = 0, player_name = '''', team = '''', pos = '''', adp = None, ecp = None,
     exp_proj = 0, games = 15, vols = 0, tier = None, vbsd = 0, volb = 0, rank = '''',
     auction = 0, vorp = None, manager = None, pick = None \<rparr>"

definition mk_player :: "int \<Rightarrow> string \<Rightarrow> string \<Rightarrow> real \<Rightarrow> string \<Rightarrow> player" where
  "mk_player i nm p v t =
     blank_player\<lparr> idx := i, player_name := nm, pos := p, vols := v, tier := Some t \<rparr>"

definition default_roster :: roster_sizes where
  "default_roster = \<lparr> n_QB = 1, n_RB = 2, n_WR = 2, n_TE = 1, n_FLEX = 1, n_DST = 1, n_K = 1,
     n_BENCH = 7 \<rparr>"

text \<open>A league whose only starters are a kicker and a defence.\<close>

definition kickers_only_roster :: roster_sizes where
  "kickers_only_roster = \<lparr> n_QB = 0, n_RB = 0, n_WR = 0, n_TE = 0, n_FLEX = 0, n_DST = 1, n_K = 1,
     n_BENCH = 0 \<rparr>"

definition example_ap :: table where
  "example_ap =
     [mk_player 0 ''Back One'' ''RB'' 40 ''RB1'',
      mk_player 1 ''Passer One'' ''QB'' 20 ''QB1'',
      mk_player 2 ''Back Two'' ''RB'' 15 ''RB1'',
      mk_player 3 ''Kicker One'' ''K'' 50 ''K1'',
      mk_player 4 ''Catcher One'' ''WR'' 5 ''WR1'']"

text \<open>
  A two-team snake draft at its first turn: manager 1 is the user, manager 2 picks
  automatically by \<open>vols\<close>.
\<close>

definition example_draft :: app_state where
  "example_draft = \<lparr> self_ap = example_ap, self_pp = [], draft_mode = True, i_manager_turn = Some 0,
     manager_picks = snake_picks 2 16, manager_auto_strats = [(2, Vols)],
     self_roster = default_roster \<rparr>"

definition example_shell :: app_state where
  "example_shell = \<lparr> self_ap = example_ap, self_pp = [], draft_mode = False, i_manager_turn = None,
     manager_picks = [], manager_auto_strats = [], self_roster = default_roster \<rparr>"

text \<open>A row with its derived \<open>vorp\<close> cell blanked.\<close>

definition erase_vorp :: "player \<Rightarrow> player" where
  "erase_vorp r = r\<lparr>vorp := None\<rparr>"

text \<open>
  A turn at which a pick triggers nothing further. Outside draft mode: the turn index is
  unset, as the class initialises it. In draft mode: the turn \<open>t\<close> and its successor lie
  inside the draft sequence, the manager of turn \<open>t + 1\<close> has no automatic strategy, and
  every picked row carries its manager and pick number.
\<close>

definition quiet_turn :: "app_state \<Rightarrow> bool" where
  "quiet_turn st =
     (if draft_mode st then
        (case i_manager_turn st of
           None \<Rightarrow> False
         | Some t \<Rightarrow>
             0 \<le> t \<and> t + 1 < int (length (manager_picks st))
             \<and> map_of (manager_auto_strats st) (manager_picks st ! nat (t + 1)) = None
             \<and> list_all (\<lambda>r. manager r \<noteq> None) (self_pp st)
             \<and> list_all (\<lambda>r. pick r \<noteq> None) (self_pp st))
      else i_manager_turn st = None)"

text \<open>The available table has no \<open>manager\<close> and \<open>pick\<close> columns.\<close>

definition no_pick_columns :: "table \<Rightarrow> bool" where
  "no_pick_columns df = list_all (\<lambda>r. manager r = None \<and> pick r = None) df"

text \<open>A one-round-trip example in draft mode: nobody picks automatically.\<close>

definition example_quiet_draft :: app_state where
  "example_quiet_draft = example_draft\<lparr> manager_auto_strats := [] \<rparr>"


section \<open>Draft application: the value pipeline of \<open>main\<close>\<close>

text \<open>
  The part of \<open>main\<close> from the VOLS baseline to the final sort (the steps after the
  projections, news and suspensions are merged). Its input is the table \<open>availdf\<close> with
  the columns \<open>pos\<close>, \<open>exp_proj\<close> and \<open>g\<close> filled in, the number of teams and the roster
  sizes. The loader tags every row with one of \<open>main_positions\<close>; the definitions say what
  happens to a table with another tag, a game count of zero or a negative one.
\<close>

definition main_positions :: "string list" where
  "main_positions = [''QB'', ''RB'', ''WR'', ''TE'', ''K'', ''DST'']"










text \<open>A fresh index \<open>0, 1, 2, ...\<close> (\<open>merge\<close> and \<open>reset_index(drop=True)\<close>).\<close>

definition reset_index :: "table \<Rightarrow> table" where
  "reset_index df = map (\<lambda>(i, r). r\<lparr>idx := int i\<rparr>) (zip [0..<length df] df)"

text \<open>\<open>df.loc[mask, column] = ...\<close>, row by row.\<close>

definition set_where :: "(player \<Rightarrow> bool) \<Rightarrow> (player \<Rightarrow> player) \<Rightarrow> table \<Rightarrow> table" where
  "set_where sel f df = map (\<lambda>r. if sel r then f r else r) df"


subsection \<open>Per-game baselines\<close>

text \<open>
  \<open>gamesdf\<close> is a copy of the table with the extra column \<open>ppg = exp_proj / g\<close>, sorted by
  it in descending order. On a row with \<open>g = 0\<close> the quotient is \<open>inf\<close>, \<open>-inf\<close> or NaN as
  \<open>exp_proj\<close> is positive, negative or zero: the sort puts the \<open>inf\<close> rows first, the \<open>-inf\<close>
  rows after every finite value and the NaN rows last. The column lives in this copy
  only, and the copy is deleted after the loop.
\<close>

definition sort_by_ppg :: "table \<Rightarrow> table" where
  "sort_by_ppg df =
     filter (\<lambda>r. games r = 0 \<and> exp_proj r > 0) df
     @ sort_values (\<lambda>r. Some (exp_proj r / real_of_int (games r))) False
         (filter (\<lambda>r. games r \<noteq> 0) df)
     @ filter (\<lambda>r. games r = 0 \<and> exp_proj r < 0) df
     @ filter (\<lambda>r. games r = 0 \<and> exp_proj r = 0) df"

text \<open>
  One round of the loop over \<open>gamesdf\<close>: \<open>gn\<close> is \<open>games_needed\<close>, whose keys are the main
  positions and \<open>FLEX\<close>, and \<open>base\<close> is \<open>ppg_baseline\<close>. A row with any other position has no
  entry in \<open>games_needed\<close>. A baseline is only ever taken from a row with \<open>0 < gneeded \<le> g\<close>,
  so never from a row with \<open>g = 0\<close>: \<open>ppg\<close> is finite wherever it is stored.
\<close>

definition baseline_step ::
  "player \<Rightarrow> (string \<Rightarrow> int) \<times> (string \<rightharpoonup> real) \<Rightarrow> py_error + ((string \<Rightarrow> int) \<times> (string \<rightharpoonup> real))" where
  "baseline_step row st =
     (let gn = fst st; base = snd st; p = pos row; gms = games row;
          ppg = exp_proj row / real_of_int gms
      in
      if p \<notin> set main_positions \<and> p \<noteq> ''FLEX'' then Inl (KeyError p)
      else
        let gneeded = gn p in
        if gneeded > gms then Inr (gn(p := gn p - gms), base)
        else if 0 < gneeded \<and> gneeded \<le> gms then
          (if p \<in> set flex_pos
           then Inr ((gn(p := 0))(''FLEX'' := gn ''FLEX'' - (gms - gneeded)), base(p \<mapsto> ppg))
           else Inr (gn(p := 0), base(p \<mapsto> ppg)))
        else if gneeded \<noteq> 0 then Inl AssertionError
        else if p \<in> set flex_pos then
          (let gf = gn ''FLEX'' in
           if gf > gms then Inr (gn(''FLEX'' := gf - gms), base)
           else if 0 < gf \<and> gf \<le> gms then Inr (gn(''FLEX'' := 0), base(''FLEX'' \<mapsto> ppg))
           else Inr (gn, base))
        else Inr (gn, base))"



subsection \<open>VOLS\<close>




subsection \<open>Tier labels of the starters\<close>






subsection \<open>Re-baselining VOLS on the tiers\<close>





subsection \<open>VBSD, VOLB, rank and auction value\<close>










subsection \<open>Backups, auction rescaling, free agents\<close>


definition league_cap :: "int \<Rightarrow> int" where
  "league_cap n_teams = n_teams * 200"




text \<open>The check whose failure \<open>main\<close> logs as an error (and then carries on).\<close>

definition auction_matches_league_cap :: "int \<Rightarrow> table \<Rightarrow> bool" where
  "auction_matches_league_cap n_teams df =
     (\<bar>sum_list (map auction df) - real_of_int (league_cap n_teams)\<bar> < 0.5)"



subsection \<open>The pipeline\<close>

text \<open>The table as the pipeline starts: a fresh index and no \<open>tier\<close> column yet.\<close>

definition initial_table :: "table \<Rightarrow> table" where
  "initial_table availdf = map (\<lambda>r. r\<lparr>tier := None\<rparr>) (reset_index availdf)"






subsection \<open>An example league\<close>


definition proj :: "string \<Rightarrow> string \<Rightarrow> real \<Rightarrow> player" where
  "proj nm p pts = \<lparr> idx = 0, player_name = nm, team = '''', pos = p, adp = None, ecp = None,
     exp_proj = pts, games = 15, vols = 0, tier = None, vbsd = 0, volb = 0, rank = '''',
     auction = 0, vorp = None, manager = None, pick = None \<rparr>"

definition small_league :: table where
  "small_league =
     [proj ''Q One'' ''QB'' 320, proj ''Q Two'' ''QB'' 240,
      proj ''R One'' ''RB'' 300, proj ''R Two'' ''RB'' 270, proj ''R Three'' ''RB'' 255,
      proj ''W One'' ''WR'' 225, proj ''W Two'' ''WR'' 180,
      proj ''T One'' ''TE'' 150, proj ''T Two'' ''TE'' 120,
      proj ''K One'' ''K'' 135, proj ''K Two'' ''K'' 105,
      proj ''D One'' ''DST'' 90, proj ''D Two'' ''DST'' 60]"

text \<open>
  The same league with one more quarterback, who is projected for 240 points but is
  available for no game at all (\<open>g = 0\<close>).
\<close>

definition idle_league :: table where
  "idle_league = small_league @ [(proj ''Q Idle'' ''QB'' 240)\<lparr>games := 0\<rparr>]"

text \<open>A row written out: index, name, position, projected points, and the derived columns.\<close>

definition row ::
  "int \<Rightarrow> string \<Rightarrow> string \<Rightarrow> real \<Rightarrow> real \<Rightarrow> string option \<Rightarrow> real \<Rightarrow> real \<Rightarrow> string \<Rightarrow> real
     \<Rightarrow> player" where
  "row i nm p pts v t vb lb rk a =
     (proj nm p pts)\<lparr> idx := i, vols := v, tier := t, vbsd := vb, volb := lb, rank := rk,
                       auction := a \<rparr>"




subsection \<open>The example league, stage by stage\<close>








subsection \<open>The league with an idle player, stage by stage\<close>








subsection \<open>What the stages of the pipeline keep\<close>

text \<open>What a stage keeps of a table: the index labels and the positions, in order.\<close>

definition same_frame :: "table \<Rightarrow> table \<Rightarrow> bool" where
  "same_frame df df' = (map idx df' = map idx df \<and> map pos df' = map pos df)"









section \<open>Properties of the fantasy point scorer\<close>

lemma gf_stat_or_zero: "gf df k = stat_or_zero df k"
  by (auto simp: gf_def stat_or_zero_def split: option.splits)

lemma gf_upd_missing_zero: "k \<notin> dom df \<Longrightarrow> gf (df(k \<mapsto> 0)) = gf df"
  by (rule ext) (auto simp: gf_def split: option.splits)

lemma gf_all_zero: "\<forall>k v. df k = Some v \<longrightarrow> v = 0 \<Longrightarrow> gf df k = 0"
  by (auto simp: gf_def split: option.splits)

text \<open>
  C1. For every ruleset and stat record, \<open>get_points\<close> is exactly the weighted sum of
  section 4.2 with floor division in the three yardage-bonus terms; a key missing from the
  record counts as zero (adding it with value zero changes nothing), and a record whose
  stats are all zero scores 0 under every ruleset.
\<close>

theorem get_points_weighted_sum:
  "get_points rs df = computeFantasyPoints_spec rs (stat_or_zero df)
   \<and> (k \<notin> dom df \<longrightarrow> get_points rs (df(k \<mapsto> 0)) = get_points rs df)
   \<and> ((\<forall>k v. df k = Some v \<longrightarrow> v = 0) \<longrightarrow> get_points rs df = 0)"
proof (intro conjI impI)
  show "get_points rs df = computeFantasyPoints_spec rs (stat_or_zero df)"
    unfolding get_points_def computeFantasyPoints_spec_def floordiv_def gf_stat_or_zero ..
next
  assume "k \<notin> dom df"
  then have "gf (df(k \<mapsto> 0)) = gf df" by (rule gf_upd_missing_zero)
  then show "get_points rs (df(k \<mapsto> 0)) = get_points rs df"
    unfolding get_points_def by (simp only:)
next
  assume "\<forall>k v. df k = Some v \<longrightarrow> v = 0"
  then have "\<And>k. gf df k = 0" by (rule gf_all_zero)
  then show "get_points rs df = 0"
    unfolding get_points_def floordiv_def by simp
qed

theorem get_points_weighted_sum_witness:
  "''fgm'' \<notin> dom example_stats
   \<and> ran example_stats = {0}
   \<and> get_points example_rules (example_stats(''fgm'' \<mapsto> 0)) = get_points example_rules example_stats
   \<and> get_points example_rules example_stats = 0
   \<and> get_points example_rules example_stats
       = computeFantasyPoints_spec example_rules (stat_or_zero example_stats)"
proof -
  have a: "''fgm'' \<notin> dom example_stats" by (simp add: example_stats_def)
  have b: "\<forall>k v. example_stats k = Some v \<longrightarrow> v = 0"
    by (auto simp: example_stats_def split: if_splits)
  have c: "ran example_stats = {0}"
    by (auto simp: example_stats_def ran_def)
  from a b c get_points_weighted_sum [of example_rules example_stats "''fgm''"]
  show ?thesis by blast
qed


section \<open>Properties of the Bayesian models\<close>

lemma upt_0_Suc_map: "[0..<Suc m] = 0 # map Suc [0..<m]"
  by (simp add: upt_conv_Cons map_Suc_upt del: upt_Suc)

lemma posterior_Cons:
  "posterior n lr (a, b) (d # ds) = posterior n lr (a + lr * d, b + lr * (real n - d)) ds"
  by (simp add: posterior_def)

text \<open>The module as shipped binds neither of the two names.\<close>

lemma dist_fit_lacks_beta_binomial:
  "getattr dist_fit ''beta_binomial'' = Inl (AttributeError ''beta_binomial'')
   \<and> getattr dist_fit ''log_beta_binomial'' = Inl (AttributeError ''log_beta_binomial'')"
  by (simp add: getattr_def dist_fit_def dist_fit_names_def)

text \<open>
  So every call on a non-empty observation sequence within \<open>[0, n]\<close> ends in the first
  round of the loop, with \<open>AttributeError\<close>; on the empty sequence the empty array is
  returned.
\<close>

lemma bbinom_raises_on_observations:
  assumes "data \<noteq> []" "data_in_range n data"
  shows "bbinom_kld dist_fit data n alpha0 beta0 lr = Inl (AttributeError ''log_beta_binomial'')"
    and "bbinom_mse dist_fit data n alpha0 beta0 lr = Inl (AttributeError ''beta_binomial'')"
    and "bbinom_mae dist_fit data n alpha0 beta0 lr = Inl (AttributeError ''beta_binomial'')"
proof -
  from assms(1) obtain d ds where data: "data = d # ds" by (cases data) auto
  show "bbinom_kld dist_fit data n alpha0 beta0 lr = Inl (AttributeError ''log_beta_binomial'')"
    using assms(2) dist_fit_lacks_beta_binomial by (simp add: bbinom_kld_def data)
  show "bbinom_mse dist_fit data n alpha0 beta0 lr = Inl (AttributeError ''beta_binomial'')"
    using assms(2) dist_fit_lacks_beta_binomial by (simp add: bbinom_mse_def data)
  show "bbinom_mae dist_fit data n alpha0 beta0 lr = Inl (AttributeError ''beta_binomial'')"
    using assms(2) dist_fit_lacks_beta_binomial by (simp add: bbinom_mae_def data)
qed

lemma bbinom_no_observations:
  "bbinom_kld dist_fit [] n alpha0 beta0 lr = Inr []
   \<and> bbinom_mse dist_fit [] n alpha0 beta0 lr = Inr []
   \<and> bbinom_mae dist_fit [] n alpha0 beta0 lr = Inr []"
  by (simp add: bbinom_kld_def bbinom_mse_def bbinom_mae_def data_in_range_def)

text \<open>
  With a module that does bind the two functions, the loops are the ones the
  specification describes: the \<open>i\<close>-th score is the score of observation \<open>i\<close> under the
  hyperparameters accumulated from the observations before \<open>i\<close> only.
\<close>

lemma kld_loop_eq:
  assumes "m ''log_beta_binomial'' = Some (Callable4 lbb)"
  shows "kld_loop m n lr a b out ds =
     Inr (out @ map (\<lambda>i. kld_score lbb n (ds ! i) (posterior n lr (a, b) (take i ds)))
                  [0..<length ds])"
proof (induction ds arbitrary: a b out)
  case Nil
  show ?case by simp
next
  case (Cons d ds)
  have first: "kld_score lbb n d (posterior n lr (a, b) []) = - lbb d n a b"
    by (simp add: kld_score_def posterior_def)
  have step: "kld_loop m n lr a b out (d # ds)
                = kld_loop m n lr (a + lr * d) (b + lr * (real n - d)) (out @ [- lbb d n a b]) ds"
    using assms by (simp add: getattr_def call4_def)
  show ?case
    unfolding step Cons.IH length_Cons upt_0_Suc_map
    by (simp add: first posterior_Cons comp_def)
qed

lemma mse_loop_eq:
  assumes "m ''beta_binomial'' = Some (Callable4 bb)"
  shows "mse_loop m n lr a b out ds =
     Inr (out @ map (\<lambda>i. mse_score bb n (ds ! i) (posterior n lr (a, b) (take i ds)))
                  [0..<length ds])"
proof (induction ds arbitrary: a b out)
  case Nil
  show ?case by simp
next
  case (Cons d ds)
  have first: "mse_score bb n d (posterior n lr (a, b) [])
                 = sum_list (map (\<lambda>k. bb k n a b * (k - d)\<^sup>2) (support n))"
    by (simp add: mse_score_def posterior_def)
  have step: "mse_loop m n lr a b out (d # ds)
                = mse_loop m n lr (a + lr * d) (b + lr * (real n - d))
                    (out @ [sum_list (map (\<lambda>k. bb k n a b * (k - d)\<^sup>2) (support n))]) ds"
    using assms by (simp add: getattr_def call4_def)
  show ?case
    unfolding step Cons.IH length_Cons upt_0_Suc_map
    by (simp add: first posterior_Cons comp_def)
qed

lemma mae_loop_eq:
  assumes "m ''beta_binomial'' = Some (Callable4 bb)"
  shows "mae_loop m n lr a b out ds =
     Inr (out @ map (\<lambda>i. mae_score bb n (ds ! i) (posterior n lr (a, b) (take i ds)))
                  [0..<length ds])"
proof (induction ds arbitrary: a b out)
  case Nil
  show ?case by simp
next
  case (Cons d ds)
  have first: "mae_score bb n d (posterior n lr (a, b) [])
                 = sum_list (map (\<lambda>k. bb k n a b * \<bar>k - d\<bar>) (support n))"
    by (simp add: mae_score_def posterior_def)
  have step: "mae_loop m n lr a b out (d # ds)
                = mae_loop m n lr (a + lr * d) (b + lr * (real n - d))
                    (out @ [sum_list (map (\<lambda>k. bb k n a b * \<bar>k - d\<bar>) (support n))]) ds"
    using assms by (simp add: getattr_def call4_def)
  show ?case
    unfolding step Cons.IH length_Cons upt_0_Suc_map
    by (simp add: first posterior_Cons comp_def)
qed

lemma bbinom_scores_with_helpers:
  assumes "m ''log_beta_binomial'' = Some (Callable4 lbb)"
    and "m ''beta_binomial'' = Some (Callable4 bb)"
    and "data_in_range n data"
  shows "bbinom_kld m data n alpha0 beta0 lr
        = Inr (map (\<lambda>i. kld_score lbb n (data ! i) (posterior n lr (alpha0, beta0) (take i data)))
                 [0..<length data])"
    and "bbinom_mse m data n alpha0 beta0 lr
        = Inr (map (\<lambda>i. mse_score bb n (data ! i) (posterior n lr (alpha0, beta0) (take i data)))
                 [0..<length data])"
    and "bbinom_mae m data n alpha0 beta0 lr
        = Inr (map (\<lambda>i. mae_score bb n (data ! i) (posterior n lr (alpha0, beta0) (take i data)))
                 [0..<length data])"
proof -
  show "bbinom_kld m data n alpha0 beta0 lr
        = Inr (map (\<lambda>i. kld_score lbb n (data ! i) (posterior n lr (alpha0, beta0) (take i data)))
                 [0..<length data])"
    using assms(3) kld_loop_eq [of m lbb n lr alpha0 beta0 "[]" data] assms(1)
    by (simp add: bbinom_kld_def)
  show "bbinom_mse m data n alpha0 beta0 lr
        = Inr (map (\<lambda>i. mse_score bb n (data ! i) (posterior n lr (alpha0, beta0) (take i data)))
                 [0..<length data])"
    using assms(3) mse_loop_eq [of m bb n lr alpha0 beta0 "[]" data] assms(2)
    by (simp add: bbinom_mse_def)
  show "bbinom_mae m data n alpha0 beta0 lr
        = Inr (map (\<lambda>i. mae_score bb n (data ! i) (posterior n lr (alpha0, beta0) (take i data)))
                 [0..<length data])"
    using assms(3) mae_loop_eq [of m bb n lr alpha0 beta0 "[]" data] assms(2)
    by (simp add: bbinom_mae_def)
qed

lemma bbinom_kld_with_probe:
  "bbinom_kld dist_fit_with_probe [3, 7] 10 1 1 1 = Inr [- probe 3 10 1 1, - probe 7 10 4 8]
   \<and> bbinom_kld dist_fit_with_probe [3, 7] 10 1 1 1 = Inr [- 101, - 408]"
proof -
  have l: "dist_fit_with_probe ''log_beta_binomial'' = Some (Callable4 probe)"
    by (simp add: dist_fit_with_probe_def)
  have b: "dist_fit_with_probe ''beta_binomial'' = Some (Callable4 probe)"
    by (simp add: dist_fit_with_probe_def)
  have r: "data_in_range 10 [3, 7]" by (simp add: data_in_range_def)
  have "bbinom_kld dist_fit_with_probe [3, 7] 10 1 1 1
          = Inr (map (\<lambda>i. kld_score probe 10 ([3, 7] ! i) (posterior 10 1 (1, 1) (take i [3, 7])))
                   [0..<length [3, 7 :: real]])"
    using bbinom_scores_with_helpers(1) [of dist_fit_with_probe probe probe 10 "[3, 7]" 1 1 1] l b r
    by simp
  then show ?thesis
    by (simp add: kld_score_def posterior_def probe_def upt_conv_Cons)
qed

text \<open>
  C5. The claim describes the loops as they are written, but \<open>dist_fit.py\<close> defines neither
  \<open>beta_binomial\<close> nor \<open>log_beta_binomial\<close>: for the two observations 3 and 7 with \<open>n = 10\<close>,
  \<open>alpha0 = beta0 = 1\<close>, \<open>lr = 1\<close> each of \<open>kld\<close>, \<open>mse\<close> and \<open>mae\<close> raises \<open>AttributeError\<close> in
  the first round of its loop and returns no score at all.
\<close>

theorem bbinom_scores_raise_AttributeError:
  "bbinom_kld dist_fit [3, 7] 10 1 1 1 = Inl (AttributeError ''log_beta_binomial'')
   \<and> bbinom_mse dist_fit [3, 7] 10 1 1 1 = Inl (AttributeError ''beta_binomial'')
   \<and> bbinom_mae dist_fit [3, 7] 10 1 1 1 = Inl (AttributeError ''beta_binomial'')"
proof -
  have r: "data_in_range 10 [3, 7]" by (simp add: data_in_range_def)
  have n: "[3, 7 :: real] \<noteq> []" by simp
  show ?thesis
    using bbinom_raises_on_observations [OF n r, of 1 1 1] by simp
qed

text \<open>
  C4. On a flat observation sequence \<open>_get_rps\<close> advances both lists by \<open>lr * d\<close>: for the
  observations 3, 5, 2 with \<open>r0 = 1\<close>, \<open>p0 = 1/2\<close> (so \<open>beta = 1\<close> at the start) and
  \<open>lr = 1\<close>, \<open>beta\<close> runs through 1, 4, 9, 11 and the returned \<open>p = 1/(1 + beta)\<close> through
  1/2, 1/5, 1/10, 1/12. The constant step \<open>beta \<leftarrow> beta + lr\<close> of the module's comment
  would give 1, 2, 3, 4.
\<close>

theorem get_rps_flat_beta_steps_by_observation:
  "rps_loop_flat 1 [1] [1] [3, 5, 2] = ([1, 4, 9, 11], [1, 4, 9, 11])
   \<and> get_rps (Flat [3, 5, 2]) 1 (1 / 2) 1 = Inr ([1, 4, 9, 11], [1 / 2, 1 / 5, 1 / 10, 1 / 12])"
  by (simp add: get_rps_def)


section \<open>Properties of the maximum-likelihood fits\<close>

lemma to_poisson_nonempty:
  "data \<noteq> [] \<Longrightarrow> to_poisson gammaln data = Inl (NameError ''x'')"
  by (simp add: to_poisson_def load_name_def to_poisson_scope_def)

text \<open>
  C9. \<open>to_poisson\<close> computes the sample mean and its error, but the statistic's second
  term reads the unbound name \<open>x\<close>: on the counts 1, 2, 3 the call ends in \<open>NameError\<close>
  and returns nothing.
\<close>

theorem to_poisson_raises_NameError:
  "to_poisson gammaln [1, 2, 3] = Inl (NameError ''x'')"
  by (simp add: to_poisson_def load_name_def to_poisson_scope_def)


section \<open>Properties of the rushing models' default hyperparameters\<close>

text \<open>
  C8 as stated fails: for the position \<open>TE\<close> none of the three lookups raises; each logs
  its two error records and returns \<open>None\<close>.
\<close>

theorem default_hyperpars_TE_counterexample:
  "\<not> raised (RushAttModel_default_hyperpars ''TE'')
   \<and> \<not> raised (RushYdsModel_default_hyperpars ''TE'')
   \<and> \<not> raised (RushTdModel_default_hyperpars ''TE'')
   \<and> RushAttModel_default_hyperpars ''TE''
       = ([LogError ''TEs do not rush enough to try to predict them'',
           LogError ''positional defaults not implemented for TE''], Inr None)"
  by (simp add: raised_def RushAttModel_default_hyperpars_def RushYdsModel_default_hyperpars_def
      RushTdModel_default_hyperpars_def upper_def is_lower_def)

text \<open>
  C8, amended. For every position code whose upper-case form is none of \<open>RB\<close>, \<open>QB\<close>,
  \<open>WR\<close>, each of the three lookups returns \<open>None\<close> without raising, and the last record it
  logs is its error message naming the upper-cased position.
\<close>

theorem default_hyperpars_unsupported_returns_None:
  assumes "upper code \<notin> {''RB'', ''QB'', ''WR''}"
  shows "snd (RushAttModel_default_hyperpars code) = Inr None
   \<and> last (fst (RushAttModel_default_hyperpars code))
       = LogError (''positional defaults not implemented for '' @ upper code)
   \<and> snd (RushYdsModel_default_hyperpars code) = Inr None
   \<and> last (fst (RushYdsModel_default_hyperpars code))
       = LogError (''no default hyperparameters are implemented for '' @ upper code)
   \<and> snd (RushTdModel_default_hyperpars code) = Inr None
   \<and> last (fst (RushTdModel_default_hyperpars code))
       = LogError (''rushing TD positional defaults not implemented for '' @ upper code)"
  using assms
  by (simp add: RushAttModel_default_hyperpars_def RushYdsModel_default_hyperpars_def
      RushTdModel_default_hyperpars_def Let_def)

theorem default_hyperpars_unsupported_returns_None_witness:
  "upper ''k'' = ''K''
   \<and> snd (RushAttModel_default_hyperpars ''k'') = Inr None
   \<and> last (fst (RushAttModel_default_hyperpars ''k''))
       = LogError ''positional defaults not implemented for K''
   \<and> snd (RushYdsModel_default_hyperpars ''k'') = Inr None
   \<and> snd (RushTdModel_default_hyperpars ''k'') = Inr None"
proof -
  have u: "upper ''k'' = ''K''" by code_simp
  then have h: "upper ''k'' \<notin> {''RB'', ''QB'', ''WR''}" by simp
  from default_hyperpars_unsupported_returns_None [OF h] u show ?thesis by simp
qed


section \<open>Properties of the name normalisation\<close>















text \<open>
  The same happens with the no-break space 0xa0 and the next-line control 0x85, which
  \<open>strip\<close> removes as well.
\<close>

lemma simplify_name_no_break_space:
  "simplify_name [CHR ''.'', CHR 0xA0, CHR ''x''] = [CHR 0xA0, CHR ''x'']
   \<and> simplify_name [CHR 0xA0, CHR ''x''] = ''x''
   \<and> simplify_name [CHR ''.'', CHR 0x85, CHR ''x''] = [CHR 0x85, CHR ''x'']
   \<and> simplify_name [CHR 0x85, CHR ''x''] = ''x''
   \<and> other_whitespace (CHR 0xA0) \<and> other_whitespace (CHR 0x85)"
  by code_simp



section \<open>Properties of the recommendation engine\<close>

lemma set_sort_values: "set (sort_values key asc df) = set df"
  by (auto simp: sort_values_def Let_def)

lemma key_positions_not_crap: "''K'' \<notin> set key_positions \<and> ''DST'' \<notin> set key_positions"
  by (simp add: key_positions_def)

lemma vols_not_ascending: "(Vols \<in> set [Adp, Ecp]) = False"
  by simp

text \<open>
  C7. Whatever the available and picked tables, the roster sizes and the manager: when
  \<open>K\<close> and \<open>DST\<close> are among the disabled positions and \<open>_pick_rec\<close> returns an index under the
  \<open>vols\<close> strategy, that index labels an available player whose position is neither \<open>K\<close>
  nor \<open>DST\<close> (the only such player when index labels are unique), and the available table
  is left as it was.
\<close>

theorem pick_rec_vols_respects_disabled:
  assumes k: "''K'' \<in> set disabled_pos"
    and d: "''DST'' \<in> set disabled_pos"
    and ret: "pick_rec rs man Vols ap pp disabled_pos = Inr (i, ap')"
  shows "ap' = ap
    \<and> (\<exists>r \<in> set ap. idx r = i \<and> pos r \<noteq> ''K'' \<and> pos r \<noteq> ''DST'')
    \<and> (distinct (map idx ap) \<longrightarrow> (\<forall>r \<in> set ap. idx r = i \<longrightarrow> pos r \<noteq> ''K'' \<and> pos r \<noteq> ''DST''))"
proof -
  define acceptable where "acceptable = acceptable_positions rs (get_manager_roster man pp)"
  define enabled where "enabled = filter (\<lambda>p. p \<notin> set disabled_pos) acceptable"
  define acceptable2 where "acceptable2 = (if length enabled \<le> 0 then key_positions else enabled)"
  define toppicks where
    "toppicks = sort_values (strat_key Vols) False (filter (\<lambda>r. pos r \<in> set acceptable2) ap)"
  have no_crap: "''K'' \<notin> set acceptable2 \<and> ''DST'' \<notin> set acceptable2"
    using k d key_positions_not_crap by (auto simp: acceptable2_def enabled_def)
  from ret have cases_top: "(case toppicks of [] \<Rightarrow> Inl IndexError | best # rest \<Rightarrow> Inr (idx best, ap))
                  = Inr (i, ap')"
    unfolding pick_rec_def Let_def toppicks_def acceptable2_def enabled_def acceptable_def
    by (simp only: strategy.simps if_False sum.case vols_not_ascending)
  then obtain best rest where tp: "toppicks = best # rest" and i: "i = idx best" and ap: "ap' = ap"
    by (cases toppicks) auto
  have "best \<in> set toppicks" using tp by simp
  then have best: "best \<in> set ap" "pos best \<in> set acceptable2"
    by (auto simp: toppicks_def set_sort_values)
  have best_pos: "pos best \<noteq> ''K'' \<and> pos best \<noteq> ''DST''"
    using best(2) no_crap by auto
  have uniq: "\<forall>r \<in> set ap. idx r = i \<longrightarrow> r = best" if "distinct (map idx ap)"
    using that best(1) i by (auto simp: distinct_map inj_on_def)
  show ?thesis
    using ap best(1) i best_pos uniq by blast
qed

lemma pick_rec_example_enabled:
  "pick_rec kickers_only_roster (Some 1) Vols example_ap [] [] = Inr (3, example_ap)"
  by code_simp

lemma pick_rec_example_disabled:
  "pick_rec kickers_only_roster (Some 1) Vols example_ap [] [''K'', ''DST''] = Inr (0, example_ap)"
  by code_simp

theorem pick_rec_vols_respects_disabled_witness:
  "''K'' \<in> set [''K'', ''DST''] \<and> ''DST'' \<in> set [''K'', ''DST'']
   \<and> pick_rec kickers_only_roster (Some 1) Vols example_ap [] [''K'', ''DST''] = Inr (0, example_ap)
   \<and> (\<exists>r \<in> set example_ap. idx r = 0 \<and> pos r \<noteq> ''K'' \<and> pos r \<noteq> ''DST'')"
proof -
  have k: "''K'' \<in> set [''K'', ''DST'']" and d: "''DST'' \<in> set [''K'', ''DST'']" by simp_all
  from pick_rec_vols_respects_disabled [OF k d pick_rec_example_disabled]
  show ?thesis using pick_rec_example_disabled by simp
qed


section \<open>Properties of picking and unpicking\<close>

subsection \<open>The VORP update never fails and writes the \<open>vorp\<close> column only\<close>

lemma erase_set_vorp: "map erase_vorp (set_vorp p f ap) = map erase_vorp ap"
  by (induction ap) (auto simp: set_vorp_def erase_vorp_def)

lemma floor_frac_bound:
  assumes "0 \<le> a" "0 < d" "0 < n"
  shows "nat \<lfloor>real_of_int a / real_of_int (a + d) * real n\<rfloor> < n"
proof -
  have lt1: "real_of_int a / real_of_int (a + d) < 1"
    using assms by (simp add: divide_less_eq)
  have ge0: "0 \<le> real_of_int a / real_of_int (a + d)"
    using assms by simp
  have "real_of_int a / real_of_int (a + d) * real n < 1 * real n"
    using lt1 assms(3) by (intro mult_strict_right_mono) auto
  then have "\<lfloor>real_of_int a / real_of_int (a + d) * real n\<rfloor> < int n"
    by (simp add: floor_less_iff)
  then show ?thesis using assms(3) by arith
qed

lemma update_vorp_pos_total:
  "\<exists>ap'. update_vorp_pos pp p ap = Inr ap' \<and> map erase_vorp ap' = map erase_vorp ap"
proof -
  define n_pos_picked where "n_pos_picked = int (length (filter (\<lambda>r. pos r = p) pp))"
  define n_waiv_picked where
    "n_waiv_picked = int (length (filter (\<lambda>r. tier r = Some ''FA'') (filter (\<lambda>r. pos r = p) pp)))"
  define pos_draftable where
    "pos_draftable = filter (\<lambda>r. tier r \<noteq> Some ''FA'') (filter (\<lambda>r. pos r = p) ap)"
  define n_pos_draftable where "n_pos_draftable = int (length pos_draftable) - n_waiv_picked"
  define pos_baseline where
    "pos_baseline = filter (\<lambda>r. tier r = Some ''BU'' \<or>
        Some (idx r) = (case sort_values (\<lambda>r. Some (vols r)) True
                               (filter (\<lambda>r. tier r \<noteq> Some ''BU'') pos_draftable) of
                          [] \<Rightarrow> None | w # ws \<Rightarrow> Some (idx w))) pos_draftable"
  have picked_nonneg: "0 \<le> n_pos_picked" by (simp add: n_pos_picked_def)
  have bound: "nat \<lfloor>real_of_int n_pos_picked / real_of_int (n_pos_picked + n_pos_draftable)
                    * real (length pos_baseline)\<rfloor> < length pos_baseline"
    if "0 < n_pos_draftable" "length pos_baseline \<noteq> 0"
    using floor_frac_bound [OF picked_nonneg that(1)] that(2) by simp
  show ?thesis
    unfolding update_vorp_pos_def Let_def
    using bound
    by (auto simp: erase_set_vorp n_pos_picked_def n_waiv_picked_def pos_draftable_def
        n_pos_draftable_def pos_baseline_def not_le)
qed

lemma update_vorp_loop_total:
  "\<exists>ap'. update_vorp_loop pp ps ap = Inr ap' \<and> map erase_vorp ap' = map erase_vorp ap"
proof (induction ps arbitrary: ap)
  case Nil
  show ?case by simp
next
  case (Cons p ps)
  obtain ap1 where 1: "update_vorp_pos pp p ap = Inr ap1" "map erase_vorp ap1 = map erase_vorp ap"
    using update_vorp_pos_total by blast
  obtain ap2 where 2: "update_vorp_loop pp ps ap1 = Inr ap2" "map erase_vorp ap2 = map erase_vorp ap1"
    using Cons.IH by blast
  show ?case using 1 2 by simp
qed

lemma update_vorp_total:
  "\<exists>ap'. update_vorp ap pp = Inr ap' \<and> map erase_vorp ap' = map erase_vorp ap"
  unfolding update_vorp_def by (rule update_vorp_loop_total)

lemma erase_vorp_idx: "map erase_vorp a = map erase_vorp b \<Longrightarrow> map idx a = map idx b"
proof -
  assume "map erase_vorp a = map erase_vorp b"
  then have "map idx (map erase_vorp a) = map idx (map erase_vorp b)" by simp
  then show ?thesis by (simp add: comp_def erase_vorp_def)
qed

subsection \<open>Moving a row between the tables\<close>

lemma loc_Some: "loc df i = Some r \<Longrightarrow> idx r = i \<and> r \<in> set df"
  by (auto simp: loc_def find_Some_iff)

lemma index_in_iff: "index_in i df \<longleftrightarrow> (\<exists>r \<in> set df. idx r = i)"
  by (auto simp: index_in_def)

lemma loc_append_last:
  "\<not> index_in i df \<Longrightarrow> idx q = i \<Longrightarrow> loc (df @ [q]) i = Some q"
  by (induction df) (auto simp: loc_def index_in_def)

lemma drop_index_append_last:
  "\<not> index_in i df \<Longrightarrow> idx q = i \<Longrightarrow> drop_index i (df @ [q]) = df"
  by (induction df) (auto simp: drop_index_def index_in_def)

lemma map_upd_absent:
  "\<not> index_in i df \<Longrightarrow> map (\<lambda>r. if idx r = i then f r else r) df = df"
  by (induction df) (auto simp: index_in_def)

lemma not_index_in_drop: "\<not> index_in i (drop_index i df)"
  by (auto simp: index_in_def drop_index_def)

lemma pop_fresh:
  assumes r: "loc ap i = Some r"
    and fresh: "\<not> index_in i pp"
    and man: "man \<noteq> None \<Longrightarrow> list_all (\<lambda>x. manager x \<noteq> None) pp"
    and pk: "pickno \<noteq> None \<Longrightarrow> list_all (\<lambda>x. pick x \<noteq> None) pp"
  shows "pop_from_player_list i ap pp man pickno
           = Inr (drop_index i ap,
                  pp @ [r\<lparr>vorp := None,
                          manager := (case man of None \<Rightarrow> manager r | Some m \<Rightarrow> Some m),
                          pick := (case pickno of None \<Rightarrow> pick r | Some k \<Rightarrow> Some k)\<rparr>])"
proof -
  have ir: "idx r = i" using loc_Some [OF r] by simp
  have pp1: "set_row i (r\<lparr>vorp := None\<rparr>) pp = pp @ [r\<lparr>vorp := None\<rparr>]"
    using fresh ir by (simp add: set_row_def)
  note upd = map_upd_absent [OF fresh]
  have nm: "\<not> list_ex (\<lambda>x. manager x = None) pp" if "man \<noteq> None"
    using man [OF that] by (simp add: list_ex_iff list_all_iff)
  have np: "\<not> list_ex (\<lambda>x. pick x = None) pp" if "pickno \<noteq> None"
    using pk [OF that] by (simp add: list_ex_iff list_all_iff)
  show ?thesis
  proof (cases man)
    case None
    show ?thesis
    proof (cases pickno)
      case None
      with \<open>man = None\<close> show ?thesis
        using r pp1 by (simp add: pop_from_player_list_def)
    next
      case (Some k)
      with \<open>man = None\<close> show ?thesis
        using r pp1 np ir by (simp add: pop_from_player_list_def upd)
    qed
  next
    case (Some m)
    show ?thesis
    proof (cases pickno)
      case None
      with \<open>man = Some m\<close> show ?thesis
        using r pp1 nm ir by (simp add: pop_from_player_list_def upd)
    next
      case (Some k)
      with \<open>man = Some m\<close> show ?thesis
        using r pp1 nm np ir by (simp add: pop_from_player_list_def upd)
    qed
  qed
qed

lemma push_last:
  assumes "\<not> index_in i pp" "\<not> index_in i ap" "idx q = i"
  shows "push_to_player_list i ap (pp @ [q])
           = Inr (ap @ [q\<lparr>manager := None, pick := None\<rparr>], pp)"
  using assms
  by (simp add: push_to_player_list_def loc_append_last drop_index_append_last set_row_def)

lemma distinct_drop_index_append:
  assumes "distinct (map idx df)" "loc df i = Some r"
  shows "mset (drop_index i df @ [r]) = mset df"
  using assms
proof (induction df)
  case Nil
  then show ?case by (simp add: loc_def)
next
  case (Cons a df)
  show ?case
  proof (cases "idx a = i")
    case True
    then have ra: "r = a" using Cons.prems(2) by (simp add: loc_def)
    have "\<not> index_in i df" using Cons.prems(1) True by (auto simp: index_in_def)
    then have "drop_index i df = df" by (induction df) (auto simp: drop_index_def index_in_def)
    then show ?thesis using True ra by (simp add: drop_index_def)
  next
    case False
    then have "loc df i = Some r" using Cons.prems(2) by (simp add: loc_def)
    then have "mset (drop_index i df @ [r]) = mset df" using Cons.IH Cons.prems(1) by simp
    then show ?thesis using False by (simp add: drop_index_def)
  qed
qed


subsection \<open>Pick, then unpick\<close>

lemma get_current_manager_at:
  assumes "i_manager_turn st = Some t" "0 \<le> t" "t < int (length (manager_picks st))"
  shows "get_current_manager st = Inr (Some (manager_picks st ! nat t))"
  using assms by (auto simp: get_current_manager_def py_index_def)

lemma advance_snake_quiet:
  assumes "0 \<le> t" "t + 1 < int (length picks)" "map_of autos (picks ! nat (t + 1)) = None"
  shows "advance_snake_from rs picks autos conf t ap pp = Done (t + 1, ap, pp)"
proof -
  have "py_index picks (t + 1) = Some (picks ! nat (t + 1))"
    using assms by (simp add: py_index_def)
  then show ?thesis
    using assms by (subst advance_snake_from.simps) simp
qed

lemma unpick_after_pick:
  assumes r: "loc ap0 i = Some r"
    and fresh: "\<not> index_in i pp0"
    and cols: "no_pick_columns ap0"
    and ap2: "map erase_vorp ap2 = map erase_vorp (drop_index i ap0)"
    and q: "q = r\<lparr>vorp := None, manager := m, pick := k\<rparr>"
  shows "\<exists>ap4. push_to_player_list (idx (last (pp0 @ [q]))) ap2 (pp0 @ [q])
                  = Inr (ap2 @ [r\<lparr>vorp := None\<rparr>], pp0)
               \<and> update_vorp (ap2 @ [r\<lparr>vorp := None\<rparr>]) pp0 = Inr ap4
               \<and> map erase_vorp ap4 = map erase_vorp (drop_index i ap0 @ [r])"
proof -
  have ir: "idx r = i" and rin: "r \<in> set ap0" using loc_Some [OF r] by simp_all
  have iq: "idx q = i" using q ir by simp
  have "manager r = None \<and> pick r = None"
    using cols rin by (auto simp: no_pick_columns_def list_all_iff)
  then have conformed: "q\<lparr>manager := None, pick := None\<rparr> = r\<lparr>vorp := None\<rparr>"
    using q by simp
  have "map idx ap2 = map idx (drop_index i ap0)" using ap2 by (rule erase_vorp_idx)
  then have notin: "\<not> index_in i ap2"
    using not_index_in_drop [of i ap0] by (simp add: index_in_def)
  have push: "push_to_player_list (idx (last (pp0 @ [q]))) ap2 (pp0 @ [q])
                = Inr (ap2 @ [r\<lparr>vorp := None\<rparr>], pp0)"
    using push_last [OF fresh notin iq] iq conformed by simp
  obtain ap4 where u: "update_vorp (ap2 @ [r\<lparr>vorp := None\<rparr>]) pp0 = Inr ap4"
    and e: "map erase_vorp ap4 = map erase_vorp (ap2 @ [r\<lparr>vorp := None\<rparr>])"
    using update_vorp_total by blast
  have "map erase_vorp ap4 = map erase_vorp (drop_index i ap0 @ [r])"
    using e ap2 by (simp add: erase_vorp_def)
  with push u show ?thesis by blast
qed

text \<open>
  C6 as stated fails in draft mode when the next manager picks automatically: in the
  two-team example the user's pick of index 0 is followed by two automatic picks of
  manager 2 (indices 1 and 2), the turn index going from 0 to 3; unpicking returns only
  index 2 and the turn index to 2. Indices 0 and 1 stay in the picked table.
\<close>

theorem pick_then_unpick_counterexample:
  "self_pp example_draft = [] \<and> i_manager_turn example_draft = Some 0
   \<and> map idx (self_ap example_draft) = [0, 1, 2, 3, 4]
   \<and> map_option (\<lambda>s. (map idx (self_pp s), map idx (self_ap s), i_manager_turn s))
         (done_state (pick_then_unpick 0 ''y'' example_draft))
       = Some ([0, 1], [3, 4, 2], Some 2)"
  by code_simp

text \<open>
  C6, amended. Let index \<open>i\<close> label the available row \<open>r\<close> and no picked row, let the
  available table have unique index labels and no \<open>manager\<close> or \<open>pick\<close> column, and let the
  turn be quiet: the shell is outside draft mode, or in draft mode at a turn whose
  successor lies inside the draft sequence and belongs to a manager without an automatic
  strategy. Then picking \<open>i\<close> and immediately unpicking ends normally in the prior state
  except for the available table: it holds the same rows with the same values in every
  column other than the recomputed \<open>vorp\<close>, the re-added row \<open>r\<close> now last. The picked table
  and the turn index are exactly as before.
\<close>

theorem pick_then_unpick_restores:
  assumes r: "loc (self_ap st) i = Some r"
    and fresh: "\<not> index_in i (self_pp st)"
    and cols: "no_pick_columns (self_ap st)"
    and dist: "distinct (map idx (self_ap st))"
    and quiet: "quiet_turn st"
  shows "\<exists>ap'. pick_then_unpick i conf st = Done (st\<lparr>self_ap := ap'\<rparr>)
           \<and> map erase_vorp ap' = map erase_vorp (drop_index i (self_ap st) @ [r])
           \<and> mset (map erase_vorp ap') = mset (map erase_vorp (self_ap st))"
proof -
  have same_rows: "mset (map erase_vorp ap') = mset (map erase_vorp (self_ap st))"
    if "map erase_vorp ap' = map erase_vorp (drop_index i (self_ap st) @ [r])" for ap'
  proof -
    have "mset (map erase_vorp ap') = image_mset erase_vorp (mset (drop_index i (self_ap st) @ [r]))"
      using that by (metis mset_map)
    also have "\<dots> = image_mset erase_vorp (mset (self_ap st))"
      using distinct_drop_index_append [OF dist r] by simp
    finally show ?thesis by simp
  qed
  show ?thesis
  proof (cases "draft_mode st")
    case False
    then have turn: "i_manager_turn st = None" using quiet by (simp add: quiet_turn_def)
    have man: "get_current_manager st = Inr None"
      using turn by (simp add: get_current_manager_def)
    define q where "q = r\<lparr>vorp := None, manager := manager r, pick := pick r\<rparr>"
    have pop: "pop_from_player_list i (self_ap st) (self_pp st) None None
                 = Inr (drop_index i (self_ap st), self_pp st @ [q])"
      using pop_fresh [OF r fresh, of None None] by (simp add: q_def)
    obtain ap2 where u2: "update_vorp (drop_index i (self_ap st)) (self_pp st @ [q]) = Inr ap2"
      and e2: "map erase_vorp ap2 = map erase_vorp (drop_index i (self_ap st))"
      using update_vorp_total by blast
    have picked: "do_pick i conf st = Done (st\<lparr>self_ap := ap2, self_pp := self_pp st @ [q]\<rparr>)"
      using False man pop u2 by (simp add: do_pick_def)
    obtain ap4 where
      push: "push_to_player_list (idx (last (self_pp st @ [q]))) ap2 (self_pp st @ [q])
               = Inr (ap2 @ [r\<lparr>vorp := None\<rparr>], self_pp st)"
      and u4: "update_vorp (ap2 @ [r\<lparr>vorp := None\<rparr>]) (self_pp st) = Inr ap4"
      and e4: "map erase_vorp ap4 = map erase_vorp (drop_index i (self_ap st) @ [r])"
      using unpick_after_pick [OF r fresh cols e2 q_def] by blast
    have "do_unpick (st\<lparr>self_ap := ap2, self_pp := self_pp st @ [q]\<rparr>) = Done (st\<lparr>self_ap := ap4\<rparr>)"
      using False push u4 by (simp add: do_unpick_def)
    then have "pick_then_unpick i conf st = Done (st\<lparr>self_ap := ap4\<rparr>)"
      using picked by (simp add: pick_then_unpick_def)
    then show ?thesis using e4 same_rows by blast
  next
    case True
    then obtain t where turn: "i_manager_turn st = Some t"
      and t0: "0 \<le> t" and t1: "t + 1 < int (length (manager_picks st))"
      and auto_none: "map_of (manager_auto_strats st) (manager_picks st ! nat (t + 1)) = None"
      and all_man: "list_all (\<lambda>x. manager x \<noteq> None) (self_pp st)"
      and all_pick: "list_all (\<lambda>x. pick x \<noteq> None) (self_pp st)"
      using quiet by (auto simp: quiet_turn_def split: option.splits)
    define m where "m = manager_picks st ! nat t"
    have man: "get_current_manager st = Inr (Some m)"
      using get_current_manager_at [OF turn t0] t1 by (simp add: m_def)
    define q where "q = r\<lparr>vorp := None, manager := Some m, pick := Some (t + 1)\<rparr>"
    have pop: "pop_from_player_list i (self_ap st) (self_pp st) (Some m) (Some (t + 1))
                 = Inr (drop_index i (self_ap st), self_pp st @ [q])"
      using pop_fresh [OF r fresh, of "Some m" "Some (t + 1)"] all_man all_pick
      by (simp add: q_def)
    obtain ap2 where u2: "update_vorp (drop_index i (self_ap st)) (self_pp st @ [q]) = Inr ap2"
      and e2: "map erase_vorp ap2 = map erase_vorp (drop_index i (self_ap st))"
      using update_vorp_total by blast
    have adv: "advance_snake conf (st\<lparr>self_ap := ap2, self_pp := self_pp st @ [q]\<rparr>)
                 = Done (st\<lparr>self_ap := ap2, self_pp := self_pp st @ [q], i_manager_turn := Some (t + 1)\<rparr>)"
      using turn advance_snake_quiet [OF t0 t1 auto_none] by (simp add: advance_snake_def)
    have picked: "do_pick i conf st
                    = Done (st\<lparr>self_ap := ap2, self_pp := self_pp st @ [q], i_manager_turn := Some (t + 1)\<rparr>)"
      using True man turn pop u2 adv by (simp add: do_pick_def)
    obtain ap4 where
      push: "push_to_player_list (idx (last (self_pp st @ [q]))) ap2 (self_pp st @ [q])
               = Inr (ap2 @ [r\<lparr>vorp := None\<rparr>], self_pp st)"
      and u4: "update_vorp (ap2 @ [r\<lparr>vorp := None\<rparr>]) (self_pp st) = Inr ap4"
      and e4: "map erase_vorp ap4 = map erase_vorp (drop_index i (self_ap st) @ [r])"
      using unpick_after_pick [OF r fresh cols e2 q_def] by blast
    have "do_unpick (st\<lparr>self_ap := ap2, self_pp := self_pp st @ [q], i_manager_turn := Some (t + 1)\<rparr>)
            = Done (st\<lparr>self_ap := ap4\<rparr>)"
      using True push u4 turn by (simp add: do_unpick_def regress_snake_def)
    then have "pick_then_unpick i conf st = Done (st\<lparr>self_ap := ap4\<rparr>)"
      using picked by (simp add: pick_then_unpick_def)
    then show ?thesis using e4 same_rows by blast
  qed
qed

lemma example_quiet_draft_facts:
  "loc (self_ap example_quiet_draft) 0 = Some (mk_player 0 ''Back One'' ''RB'' 40 ''RB1'')
   \<and> \<not> index_in 0 (self_pp example_quiet_draft)
   \<and> no_pick_columns (self_ap example_quiet_draft)
   \<and> distinct (map idx (self_ap example_quiet_draft))
   \<and> quiet_turn example_quiet_draft"
  by code_simp

theorem pick_then_unpick_restores_witness:
  "quiet_turn example_quiet_draft
   \<and> (\<exists>ap'. pick_then_unpick 0 ''y'' example_quiet_draft = Done (example_quiet_draft\<lparr>self_ap := ap'\<rparr>)
          \<and> map erase_vorp ap'
              = map erase_vorp (drop_index 0 (self_ap example_quiet_draft)
                                @ [mk_player 0 ''Back One'' ''RB'' 40 ''RB1'']))"
proof -
  have f: "loc (self_ap example_quiet_draft) 0 = Some (mk_player 0 ''Back One'' ''RB'' 40 ''RB1'')"
    "\<not> index_in 0 (self_pp example_quiet_draft)"
    "no_pick_columns (self_ap example_quiet_draft)"
    "distinct (map idx (self_ap example_quiet_draft))"
    "quiet_turn example_quiet_draft"
    using example_quiet_draft_facts by simp_all
  from pick_then_unpick_restores [OF f, of "''y''"] f(5) show ?thesis by blast
qed


section \<open>The value pipeline on the example league\<close>










section \<open>The value pipeline on the league with an idle player\<close>

text \<open>
  The idle quarterback comes first in \<open>gamesdf\<close> (his points per game are infinite), the
  baseline loop passes him by, and his \<open>vols\<close> is 0 before the re-baselining.
\<close>

lemma idle_sorted_first:
  "map player_name (sort_by_ppg (initial_table idle_league))
     = [''Q Idle'', ''Q One'', ''R One'', ''R Two'', ''R Three'', ''Q Two'', ''W One'', ''W Two'',
        ''T One'', ''K One'', ''T Two'', ''K Two'', ''D One'', ''D Two'']"
  by code_simp










section \<open>Properties of the re-baselining step\<close>













lemma shifted_rows_nonempty:
  "filter (\<lambda>r. pos r = p) df \<noteq> [] \<Longrightarrow>
   filter (\<lambda>r. pos r = p) (set_where (\<lambda>r. pos r = p) (\<lambda>r. r\<lparr>vols := vols r - w\<rparr>) df) \<noteq> []"
  by (induction df) (auto simp: set_where_def)





section \<open>Properties of the auction rescaling\<close>










section \<open>Invariants of the value pipeline\<close>

subsection \<open>Row-wise assignments\<close>




lemma same_frame_refl: "same_frame df df"
  by (simp add: same_frame_def)



subsection \<open>The start of the pipeline\<close>



subsection \<open>VOLS\<close>

text \<open>
  The baseline loop passes a row with \<open>g = 0\<close> by: neither \<open>games_needed\<close> nor
  \<open>ppg_baseline\<close> changes, whatever the row's projection.
\<close>

lemma baseline_step_idle:
  assumes "games r = 0" "pos r \<in> set main_positions" "0 \<le> fst st (pos r)"
  shows "baseline_step r st = Inr st"
proof (cases st)
  case (Pair gn base)
  have "gn(pos r := gn (pos r)) = gn" by simp
  moreover have "gn(''FLEX'' := gn ''FLEX'') = gn" by simp
  ultimately show ?thesis
    using assms Pair by (auto simp: baseline_step_def Let_def)
qed



subsection \<open>Tier labels\<close>







subsection \<open>Re-baselining\<close>



subsection \<open>Values\<close>
























subsection \<open>Starters\<close>








section \<open>The auction values of the finished table\<close>




section \<open>The worst starter of each position in the finished table\<close>




end

